theory Spec2Isabelle
  imports Complex_Main "HOL-Library.Multiset" "HOL-Library.Char_ord" "HOL-Library.List_Lexorder"
begin

section \<open>Values crossing the HTTP and SQL boundaries\<close>

text \<open>
  The repository holds three versions of one Express server:
  \<^item> \<^verbatim>\<open>src/unnamed/part_000\<close>: multi-user, on sql.js, with refresh tokens and backups
    (definitions suffixed \<open>_p0\<close>);
  \<^item> \<^verbatim>\<open>src/server.js\<close>: single-user, on sql.js, with no input validation
    (suffix \<open>_sv\<close>);
  \<^item> \<^verbatim>\<open>src/unnamed/part_001\<close>: single-user, on better-sqlite3 (suffix \<open>_p1\<close>).

  A value field of a JSON request body is absent (\<open>Undefined\<close>), null, a number or a
  string; booleans, arrays and objects as field values are outside the model. A text field
  that reaches a SQL comparison or the password hash (username, email, password, refresh
  token) is an optional string, \<open>None\<close> when absent or null. A string's length counts
  its characters as JavaScript counts UTF-16 units.
\<close>

datatype jsval = Undefined | Null | Num real | Str string

text \<open>JavaScript's ToBoolean, as \<^verbatim>\<open>!x\<close> and \<^verbatim>\<open>x || y\<close> use it.\<close>

fun truthy :: "jsval \<Rightarrow> bool" where
  "truthy Undefined = False"
| "truthy Null = False"
| "truthy (Num n) = (n \<noteq> 0)"
| "truthy (Str s) = (s \<noteq> [])"

definition js_or :: "jsval \<Rightarrow> jsval \<Rightarrow> jsval" where
  "js_or a b = (if truthy a then a else b)"

datatype sqlval = SNull | SNum real | SText string

text \<open>
  What the drivers do with a bound parameter; \<open>None\<close> is the driver's throw. sql.js
  (\<^verbatim>\<open>Statement.bindValue\<close>) binds strings, numbers and null, and throws "Wrong API use"
  on \<^verbatim>\<open>undefined\<close>. better-sqlite3 binds strings, numbers and null alike; whether it
  binds \<^verbatim>\<open>undefined\<close> as NULL or throws is left open by the flag \<open>undef_null\<close>.
\<close>

fun sqljs_bind :: "jsval \<Rightarrow> sqlval option" where
  "sqljs_bind Undefined = None"
| "sqljs_bind Null = Some SNull"
| "sqljs_bind (Num n) = Some (SNum n)"
| "sqljs_bind (Str s) = Some (SText s)"

fun bsqlite_bind :: "bool \<Rightarrow> jsval \<Rightarrow> sqlval option" where
  "bsqlite_bind undef_null Undefined = (if undef_null then Some SNull else None)"
| "bsqlite_bind undef_null Null = Some SNull"
| "bsqlite_bind undef_null (Num n) = Some (SNum n)"
| "bsqlite_bind undef_null (Str s) = Some (SText s)"

text \<open>
  The \<^verbatim>\<open>{error: "..."}\<close> bodies of the three servers, one constructor per literal,
  named by the literal's words without their accents (\<open>Senha_min_6\<close> and \<open>Senha_min_4\<close>
  are "Senha deve ter pelo menos 6 caracteres" and "... 4 caracteres").
\<close>

datatype errmsg =
    Token_invalido_ou_expirado | Nao_autenticado
  | Preencha_todos_os_campos | Senha_min_6 | Senha_min_4
  | Usuario_ou_email_ja_cadastrado | Erro_ao_criar_conta
  | Preencha_usuario_e_senha | Usuario_ou_senha_incorretos
  | Nenhuma_conta_encontrada | Senha_incorreta | Erro_no_login
  | Refresh_token_nao_fornecido | Refresh_token_invalido | Refresh_token_expirado
  | Erro_ao_atualizar_saldo | Erro_ao_buscar_transacoes
  | Dados_invalidos | Erro_ao_criar_transacao | Erro_ao_deletar_transacao

text \<open>
  \<open>Reply s v\<close> is \<^verbatim>\<open>res.status(s).json(v)\<close>; \<open>Fail s m\<close> is
  \<^verbatim>\<open>res.status(s).json({error: m})\<close>.
\<close>

datatype 'a reply = Reply nat 'a | Fail nat errmsg


datatype success = Success_true

section \<open>The tables\<close>

text \<open>
  Rows of \<^verbatim>\<open>transactions\<close> and \<^verbatim>\<open>users\<close>; the multi-user schema of part_000 adds
  columns. Times are numbers: \<^verbatim>\<open>CURRENT_TIMESTAMP\<close> in seconds, JavaScript dates in
  milliseconds. A cell of a column that takes a bound request value holds what was bound.
\<close>

record txn =
  t_id :: nat
  t_user_id :: nat
  t_type :: string
  t_amount :: sqlval
  t_comment :: sqlval
  t_date :: nat

record mtxn = txn +
  t_category :: sqlval

record user =
  u_id :: nat
  u_password :: string
  u_initial_balance :: sqlval
  u_created_at :: nat

record muser = user +
  u_username :: string
  u_email :: string
  u_last_login :: "nat option"

record rtoken =
  r_id :: nat
  r_user_id :: nat
  r_token :: string
  r_expires_at :: nat
  r_created_at :: nat

text \<open>
  A database: its tables in insertion order, and for each \<^verbatim>\<open>AUTOINCREMENT\<close> key the
  largest value ever used (SQLite's \<^verbatim>\<open>sqlite_sequence\<close>). The single-user servers
  have two tables; part_000 has three, and its backup directory beside the database.
\<close>

record sdb =
  users :: "user list"
  users_seq :: nat
  transactions :: "txn list"
  transactions_seq :: nat

record mdb =
  m_users :: "muser list"
  m_users_seq :: nat
  m_transactions :: "mtxn list"
  m_transactions_seq :: nat
  m_refresh_tokens :: "rtoken list"
  m_refresh_tokens_seq :: nat
  m_backups :: "string list"

definition next_rowid :: "nat \<Rightarrow> nat list \<Rightarrow> nat" where
  "next_rowid seq ids = Suc (fold max ids seq)"

section \<open>Signed tokens\<close>

text \<open>
  The jsonwebtoken library. A token string decodes to its payload, the times it carries
  (in seconds) and the key its signature was made with; \<open>dec\<close> is the decoding, \<open>None\<close>
  on a string that is no token, and \<open>enc\<close> the encoding. \<^verbatim>\<open>jwt.verify\<close> refuses a
  string that does not decode, then a signature made with another key, then a token whose
  \<^verbatim>\<open>exp\<close> is not after the clock; \<^verbatim>\<open>jwt.sign\<close> with \<^verbatim>\<open>expiresIn\<close> sets \<^verbatim>\<open>exp\<close> that
  many seconds after \<^verbatim>\<open>iat\<close>, and without it sets none. The clock \<open>now\<close> is in
  milliseconds.
\<close>

record claims =
  c_userId :: nat
  c_username :: "string option"

record jwt =
  j_claims :: claims
  j_iat :: nat
  j_exp :: "nat option"
  j_key :: string

datatype jwt_error = JsonWebTokenError | TokenExpiredError

definition jwt_verify ::
  "(string \<Rightarrow> jwt option) \<Rightarrow> string \<Rightarrow> string \<Rightarrow> nat \<Rightarrow> jwt_error + claims" where
  "jwt_verify dec token secret now =
     (case dec token of
        None \<Rightarrow> Inl JsonWebTokenError
      | Some j \<Rightarrow>
          if j_key j \<noteq> secret then Inl JsonWebTokenError
          else (case j_exp j of
                  None \<Rightarrow> Inr (j_claims j)
                | Some e \<Rightarrow> if e \<le> now div 1000 then Inl TokenExpiredError
                            else Inr (j_claims j)))"

definition jwt_sign ::
  "(jwt \<Rightarrow> string) \<Rightarrow> claims \<Rightarrow> string \<Rightarrow> nat option \<Rightarrow> nat \<Rightarrow> string" where
  "jwt_sign enc payload secret expiresIn now =
     enc \<lparr>j_claims = payload, j_iat = now div 1000,
          j_exp = map_option (\<lambda>d. now div 1000 + d) expiresIn, j_key = secret\<rparr>"

section \<open>The authentication middleware\<close>

text \<open>\<^verbatim>\<open>String.prototype.replace\<close> with a string pattern: the first occurrence only.\<close>

fun replace_first :: "string \<Rightarrow> string \<Rightarrow> string \<Rightarrow> string" where
  "replace_first pat rep [] = (if pat = [] then rep else [])"
| "replace_first pat rep (c # cs) =
     (if take (length pat) (c # cs) = pat then rep @ drop (length pat) (c # cs)
      else c # replace_first pat rep cs)"

text \<open>
  \<^verbatim>\<open>req.header("Authorization")?.replace("Bearer ", "")\<close>: \<open>None\<close> when the header is
  absent.
\<close>

definition bearer_token :: "string option \<Rightarrow> string option" where
  "bearer_token hdr = map_option (replace_first ''Bearer '' []) hdr"

text \<open>
  part_000, lines 121-133. The result is the 401 reply, or the request context
  (\<^verbatim>\<open>req.userId\<close>, \<^verbatim>\<open>req.username\<close>) that \<^verbatim>\<open>next()\<close> continues with.
\<close>

definition auth_p0 ::
  "(string \<Rightarrow> jwt option) \<Rightarrow> string \<Rightarrow> nat \<Rightarrow> string option \<Rightarrow> 'a reply + claims" where
  "auth_p0 dec JWT_SECRET now hdr =
     (case bearer_token hdr of
        None \<Rightarrow> Inl (Fail 401 Token_invalido_ou_expirado)
      | Some token \<Rightarrow>
          if token = [] then Inl (Fail 401 Token_invalido_ou_expirado)
          else (case jwt_verify dec token JWT_SECRET now of
                  Inl e \<Rightarrow> Inl (Fail 401 Token_invalido_ou_expirado)
                | Inr decoded \<Rightarrow>
                    Inr \<lparr>c_userId = c_userId decoded, c_username = c_username decoded\<rparr>))"

text \<open>\<^verbatim>\<open>process.env.JWT_SECRET || "secret-key-123"\<close> of server.js and part_001.\<close>

definition jwt_secret_single :: "string option \<Rightarrow> string" where
  "jwt_secret_single env =
     (case env of None \<Rightarrow> ''secret-key-123''
      | Some s \<Rightarrow> if s = [] then ''secret-key-123'' else s)"

text \<open>
  server.js, lines 64-78, and part_001, lines 51-65: the context is \<^verbatim>\<open>req.userId\<close>.
\<close>

definition auth_single ::
  "(string \<Rightarrow> jwt option) \<Rightarrow> string option \<Rightarrow> nat \<Rightarrow> string option \<Rightarrow> 'a reply + nat" where
  "auth_single dec env now hdr =
     (case bearer_token hdr of
        None \<Rightarrow> Inl (Fail 401 Nao_autenticado)
      | Some token \<Rightarrow>
          if token = [] then Inl (Fail 401 Nao_autenticado)
          else (case jwt_verify dec token (jwt_secret_single env) now of
                  Inl e \<Rightarrow> Inl (Fail 401 Nao_autenticado)
                | Inr decoded \<Rightarrow> Inr (c_userId decoded)))"

text \<open>
  A route \<^verbatim>\<open>app.get(path, auth, handler)\<close>: the handler runs on the context when the
  middleware called \<^verbatim>\<open>next()\<close>, and not at all when it replied.
\<close>

definition route :: "'r + 'c \<Rightarrow> ('c \<Rightarrow> 'd \<Rightarrow> 'r \<times> 'd) \<Rightarrow> 'd \<Rightarrow> 'r \<times> 'd" where
  "route a handler db = (case a of Inl r \<Rightarrow> (r, db) | Inr c \<Rightarrow> handler c db)"

section \<open>Transactions\<close>

text \<open>
  \<^verbatim>\<open>DELETE FROM transactions WHERE id = ? AND user_id = ?\<close>. The id is the path
  segment, a string; \<open>id_eq\<close> is SQLite's comparison of that text with the integer key.
\<close>

definition delete_where_id_user ::
  "(string \<Rightarrow> nat \<Rightarrow> bool) \<Rightarrow> string \<Rightarrow> nat \<Rightarrow> 'a txn_scheme list \<Rightarrow> 'a txn_scheme list" where
  "delete_where_id_user id_eq p uid rows =
     filter (\<lambda>r. \<not> (id_eq p (t_id r) \<and> t_user_id r = uid)) rows"

text \<open>part_000, lines 461-472.\<close>

definition delete_transaction_p0 ::
  "(string \<Rightarrow> nat \<Rightarrow> bool) \<Rightarrow> string \<Rightarrow> claims \<Rightarrow> mdb \<Rightarrow> success reply \<times> mdb" where
  "delete_transaction_p0 id_eq p req db =
     (Reply 200 Success_true,
      db\<lparr>m_transactions := delete_where_id_user id_eq p (c_userId req) (m_transactions db)\<rparr>)"

text \<open>server.js, lines 231-242, and part_001, lines 215-227.\<close>

definition delete_transaction_single ::
  "(string \<Rightarrow> nat \<Rightarrow> bool) \<Rightarrow> string \<Rightarrow> nat \<Rightarrow> sdb \<Rightarrow> success reply \<times> sdb" where
  "delete_transaction_single id_eq p userId db =
     (Reply 200 Success_true,
      db\<lparr>transactions := delete_where_id_user id_eq p userId (transactions db)\<rparr>)"


















section \<open>The initial balance\<close>





section \<open>Backups (part_000)\<close>

text \<open>
  The clock as \<^verbatim>\<open>new Date().toISOString()\<close> prints it: the fields of a UTC time, for
  years 0 to 9999, each zero-padded to its width (\<^verbatim>\<open>YYYY-MM-DDTHH:mm:ss.sssZ\<close>).
\<close>

record stamp =
  year :: nat
  month :: nat
  day :: nat
  hour :: nat
  minute :: nat
  second :: nat
  milli :: nat

definition digit :: "nat \<Rightarrow> char" where
  "digit d = char_of (48 + d)"

fun pad :: "nat \<Rightarrow> nat \<Rightarrow> string" where
  "pad 0 n = []"
| "pad (Suc w) n = digit (n div 10 ^ w) # pad w (n mod 10 ^ w)"

definition toISOString :: "stamp \<Rightarrow> string" where
  "toISOString d =
     pad 4 (year d) @ ''-'' @ pad 2 (month d) @ ''-'' @ pad 2 (day d) @ ''T'' @
     pad 2 (hour d) @ '':'' @ pad 2 (minute d) @ '':'' @ pad 2 (second d) @ ''.'' @
     pad 3 (milli d) @ ''Z''"

text \<open>\<^verbatim>\<open>.replace(/[:.]/g, "-")\<close>.\<close>

definition replace_colon_dot :: "string \<Rightarrow> string" where
  "replace_colon_dot s = map (\<lambda>c. if c = CHR '':'' \<or> c = CHR ''.'' then CHR ''-'' else c) s"

definition backup_name :: "stamp \<Rightarrow> string" where
  "backup_name d = ''backup-'' @ replace_colon_dot (toISOString d) @ ''.db''"

text \<open>
  The UTC times that \<^verbatim>\<open>toISOString\<close> prints in this format, and the order of time on
  them.
\<close>

definition valid_stamp :: "stamp \<Rightarrow> bool" where
  "valid_stamp d =
     (year d < 10000 \<and> 1 \<le> month d \<and> month d \<le> 12 \<and> 1 \<le> day d \<and> day d \<le> 31 \<and>
      hour d < 24 \<and> minute d < 60 \<and> second d < 60 \<and> milli d < 1000)"

definition earlier :: "stamp \<Rightarrow> stamp \<Rightarrow> bool" where
  "earlier a b =
     (year a < year b \<or> year a = year b \<and>
      (month a < month b \<or> month a = month b \<and>
       (day a < day b \<or> day a = day b \<and>
        (hour a < hour b \<or> hour a = hour b \<and>
         (minute a < minute b \<or> minute a = minute b \<and>
          (second a < second b \<or> second a = second b \<and> milli a < milli b))))))"

text \<open>\<^verbatim>\<open>f.startsWith("backup-")\<close>.\<close>

definition is_backup :: "string \<Rightarrow> bool" where
  "is_backup f = (take 7 f = ''backup-'')"

text \<open>
  The backup directory is the list of its file names. \<^verbatim>\<open>fs.copyFileSync\<close> creates the
  file or overwrites the file of that name; the copy is taken to succeed.
\<close>

definition copyFileSync :: "string \<Rightarrow> string list \<Rightarrow> string list" where
  "copyFileSync f dir = (if f \<in> set dir then dir else dir @ [f])"

text \<open>
  part_000, lines 91-115. \<^verbatim>\<open>sort()\<close> orders strings by their code units, which is
  the lexicographic order of \<open>string\<close>; \<^verbatim>\<open>slice(10)\<close> is \<open>drop 10\<close>.
\<close>

definition createBackup :: "stamp \<Rightarrow> string list \<Rightarrow> string list" where
  "createBackup d dir =
     (let dir1 = copyFileSync (backup_name d) dir;
          backups = rev (sort (filter is_backup dir1))
      in if length backups > 10 then filter (\<lambda>f. f \<notin> set (drop 10 backups)) dir1
         else dir1)"

text \<open>Backup after backup, at the times of the list.\<close>

definition run_backups :: "stamp list \<Rightarrow> string list \<Rightarrow> string list" where
  "run_backups ds dir = fold createBackup ds dir"

section \<open>Accounts and sessions\<close>

text \<open>
  bcryptjs: \<^verbatim>\<open>bcrypt.hash\<close> and \<^verbatim>\<open>bcrypt.compare\<close> reject a password that is not a
  string. \<open>hash\<close> is the salted hashing of a string and \<open>compare\<close> the comparison of a
  string with a stored hash.
\<close>

record session =
  s_token :: string
  s_userId :: nat

record msession = session +
  s_refreshToken :: string
  s_username :: string

text \<open>\<^verbatim>\<open>!x\<close> on a text field.\<close>

definition missing :: "string option \<Rightarrow> bool" where
  "missing x = (case x of None \<Rightarrow> True | Some s \<Rightarrow> s = [])"

text \<open>
  part_000, lines 151-217. The token column of \<^verbatim>\<open>refresh_tokens\<close> is \<^verbatim>\<open>UNIQUE\<close>:
  inserting a token already stored throws, after the user's row was written.
\<close>

definition register_p0 ::
  "(jwt \<Rightarrow> string) \<Rightarrow> (string \<Rightarrow> string) \<Rightarrow> string \<Rightarrow> string \<Rightarrow> nat \<Rightarrow> stamp \<Rightarrow>
   string option \<Rightarrow> string option \<Rightarrow> string option \<Rightarrow> jsval \<Rightarrow> mdb \<Rightarrow> msession reply \<times> mdb" where
  "register_p0 enc hash JWT_SECRET JWT_REFRESH_SECRET now d username email password
       initialBalance db =
     (case (username, email, password) of
        (Some un, Some em, Some pw) \<Rightarrow>
          if un = [] \<or> em = [] \<or> pw = [] then (Fail 400 Preencha_todos_os_campos, db)
          else if length pw < 6 then (Fail 400 Senha_min_6, db)
          else if filter (\<lambda>u. u_username u = un \<or> u_email u = em) (m_users db) \<noteq> []
            then (Fail 400 Usuario_ou_email_ja_cadastrado, db)
          else (case sqljs_bind (js_or initialBalance (Num 0)) of
                  None \<Rightarrow> (Fail 400 Erro_ao_criar_conta, db)
                | Some ib \<Rightarrow>
                    (let userId = next_rowid (m_users_seq db) (map u_id (m_users db));
                         db1 = db\<lparr>m_users := m_users db @
                                   [\<lparr>u_id = userId, u_password = hash pw,
                                     u_initial_balance = ib, u_created_at = now div 1000,
                                     u_username = un, u_email = em, u_last_login = None\<rparr>],
                                 m_users_seq := userId\<rparr>;
                         db2 = db1\<lparr>m_backups := createBackup d (m_backups db1)\<rparr>;
                         token = jwt_sign enc \<lparr>c_userId = userId, c_username = Some un\<rparr>
                                   JWT_SECRET (Some 3600) now;
                         refreshToken = jwt_sign enc \<lparr>c_userId = userId, c_username = Some un\<rparr>
                                   JWT_REFRESH_SECRET (Some 604800) now;
                         rid = next_rowid (m_refresh_tokens_seq db2)
                                 (map r_id (m_refresh_tokens db2))
                     in if refreshToken \<in> set (map r_token (m_refresh_tokens db2))
                        then (Fail 400 Erro_ao_criar_conta, db2)
                        else (Reply 201 \<lparr>s_token = token, s_userId = userId,
                                         s_refreshToken = refreshToken, s_username = un\<rparr>,
                              db2\<lparr>m_refresh_tokens := m_refresh_tokens db2 @
                                     [\<lparr>r_id = rid, r_user_id = userId, r_token = refreshToken,
                                       r_expires_at = now + 604800000,
                                       r_created_at = now div 1000\<rparr>],
                                  m_refresh_tokens_seq := rid\<rparr>)))
      | _ \<Rightarrow> (Fail 400 Preencha_todos_os_campos, db))"

text \<open>server.js, lines 81-105: the password is hashed as it comes.\<close>

definition register_sv ::
  "(jwt \<Rightarrow> string) \<Rightarrow> (string \<Rightarrow> string) \<Rightarrow> string option \<Rightarrow> nat \<Rightarrow>
   string option \<Rightarrow> jsval \<Rightarrow> sdb \<Rightarrow> session reply \<times> sdb" where
  "register_sv enc hash env now password initialBalance db =
     (case password of
        None \<Rightarrow> (Fail 400 Erro_ao_criar_conta, db)
      | Some pw \<Rightarrow>
          (case sqljs_bind (js_or initialBalance (Num 0)) of
             None \<Rightarrow> (Fail 400 Erro_ao_criar_conta, db)
           | Some ib \<Rightarrow>
               (let userId = next_rowid (users_seq db) (map u_id (users db));
                    token = jwt_sign enc \<lparr>c_userId = userId, c_username = None\<rparr>
                              (jwt_secret_single env) None now
                in (Reply 201 \<lparr>s_token = token, s_userId = userId\<rparr>,
                    db\<lparr>users := users db @
                         [\<lparr>u_id = userId, u_password = hash pw, u_initial_balance = ib,
                           u_created_at = now div 1000\<rparr>],
                       users_seq := userId\<rparr>))))"

text \<open>part_001, lines 68-95.\<close>

definition register_p1 ::
  "bool \<Rightarrow> (jwt \<Rightarrow> string) \<Rightarrow> (string \<Rightarrow> string) \<Rightarrow> string option \<Rightarrow> nat \<Rightarrow>
   string option \<Rightarrow> jsval \<Rightarrow> sdb \<Rightarrow> session reply \<times> sdb" where
  "register_p1 undef_null enc hash env now password initialBalance db =
     (case password of
        None \<Rightarrow> (Fail 400 Senha_min_4, db)
      | Some pw \<Rightarrow>
          if pw = [] \<or> length pw < 4 then (Fail 400 Senha_min_4, db)
          else (case bsqlite_bind undef_null (js_or initialBalance (Num 0)) of
                  None \<Rightarrow> (Fail 400 Erro_ao_criar_conta, db)
                | Some ib \<Rightarrow>
                    (let userId = next_rowid (users_seq db) (map u_id (users db));
                         token = jwt_sign enc \<lparr>c_userId = userId, c_username = None\<rparr>
                                   (jwt_secret_single env) None now
                     in (Reply 201 \<lparr>s_token = token, s_userId = userId\<rparr>,
                         db\<lparr>users := users db @
                              [\<lparr>u_id = userId, u_password = hash pw, u_initial_balance = ib,
                                u_created_at = now div 1000\<rparr>],
                            users_seq := userId\<rparr>))))"

text \<open>
  part_000, lines 220-286. The account is the first row whose username or email is the
  given name.
\<close>

definition login_p0 ::
  "(jwt \<Rightarrow> string) \<Rightarrow> (string \<Rightarrow> string \<Rightarrow> bool) \<Rightarrow> string \<Rightarrow> string \<Rightarrow> nat \<Rightarrow>
   string option \<Rightarrow> string option \<Rightarrow> mdb \<Rightarrow> msession reply \<times> mdb" where
  "login_p0 enc compare JWT_SECRET JWT_REFRESH_SECRET now username password db =
     (case (username, password) of
        (Some un, Some pw) \<Rightarrow>
          if un = [] \<or> pw = [] then (Fail 400 Preencha_usuario_e_senha, db)
          else (case filter (\<lambda>u. u_username u = un \<or> u_email u = un) (m_users db) of
                  [] \<Rightarrow> (Fail 401 Usuario_ou_senha_incorretos, db)
                | user # _ \<Rightarrow>
                    if \<not> compare pw (u_password user)
                    then (Fail 401 Usuario_ou_senha_incorretos, db)
                    else
                      (let db1 = db\<lparr>m_users :=
                               map (\<lambda>u. if u_id u = u_id user
                                         then u\<lparr>u_last_login := Some (now div 1000)\<rparr> else u)
                                   (m_users db)\<rparr>;
                           token = jwt_sign enc
                                     \<lparr>c_userId = u_id user, c_username = Some (u_username user)\<rparr>
                                     JWT_SECRET (Some 3600) now;
                           refreshToken = jwt_sign enc
                                     \<lparr>c_userId = u_id user, c_username = Some (u_username user)\<rparr>
                                     JWT_REFRESH_SECRET (Some 604800) now;
                           rid = next_rowid (m_refresh_tokens_seq db1)
                                   (map r_id (m_refresh_tokens db1))
                       in if refreshToken \<in> set (map r_token (m_refresh_tokens db1))
                          then (Fail 400 Erro_no_login, db1)
                          else (Reply 200 \<lparr>s_token = token, s_userId = u_id user,
                                           s_refreshToken = refreshToken,
                                           s_username = u_username user\<rparr>,
                                db1\<lparr>m_refresh_tokens := m_refresh_tokens db1 @
                                       [\<lparr>r_id = rid, r_user_id = u_id user,
                                         r_token = refreshToken,
                                         r_expires_at = now + 604800000,
                                         r_created_at = now div 1000\<rparr>],
                                    m_refresh_tokens_seq := rid\<rparr>)))
      | _ \<Rightarrow> (Fail 400 Preencha_usuario_e_senha, db))"

text \<open>
  server.js, lines 107-134, and part_001, lines 97-124:
  \<^verbatim>\<open>SELECT * FROM users LIMIT 1\<close>, then the password against that row.
\<close>

definition login_single ::
  "(jwt \<Rightarrow> string) \<Rightarrow> (string \<Rightarrow> string \<Rightarrow> bool) \<Rightarrow> string option \<Rightarrow> nat \<Rightarrow>
   string option \<Rightarrow> sdb \<Rightarrow> session reply \<times> sdb" where
  "login_single enc compare env now password db =
     (case users db of
        [] \<Rightarrow> (Fail 404 Nenhuma_conta_encontrada, db)
      | user # _ \<Rightarrow>
          (case password of
             None \<Rightarrow> (Fail 400 Erro_no_login, db)
           | Some pw \<Rightarrow>
               if \<not> compare pw (u_password user) then (Fail 401 Senha_incorreta, db)
               else (Reply 200
                       \<lparr>s_token = jwt_sign enc \<lparr>c_userId = u_id user, c_username = None\<rparr>
                                    (jwt_secret_single env) None now,
                        s_userId = u_id user\<rparr>, db)))"

text \<open>part_000, lines 289-332. The reply's body is the new access token.\<close>

definition refresh_p0 ::
  "(jwt \<Rightarrow> string) \<Rightarrow> (string \<Rightarrow> jwt option) \<Rightarrow> string \<Rightarrow> string \<Rightarrow> nat \<Rightarrow>
   string option \<Rightarrow> mdb \<Rightarrow> string reply \<times> mdb" where
  "refresh_p0 enc dec JWT_SECRET JWT_REFRESH_SECRET now refreshToken db =
     (case refreshToken of
        None \<Rightarrow> (Fail 400 Refresh_token_nao_fornecido, db)
      | Some rt \<Rightarrow>
          if rt = [] then (Fail 400 Refresh_token_nao_fornecido, db)
          else (case filter (\<lambda>r. r_token r = rt) (m_refresh_tokens db) of
                  [] \<Rightarrow> (Fail 401 Refresh_token_invalido, db)
                | tokenData # _ \<Rightarrow>
                    if r_expires_at tokenData < now then (Fail 401 Refresh_token_expirado, db)
                    else (case jwt_verify dec rt JWT_REFRESH_SECRET now of
                            Inl e \<Rightarrow> (Fail 401 Refresh_token_invalido, db)
                          | Inr decoded \<Rightarrow>
                              (Reply 200
                                 (jwt_sign enc \<lparr>c_userId = c_userId decoded,
                                                c_username = c_username decoded\<rparr>
                                    JWT_SECRET (Some 3600) now), db))))"

section \<open>Example states\<close>

text \<open>
  Concrete inputs on which the theorems below are exercised: an encoder and a decoder of
  four token strings, a database of each schema with transactions of two users, two times
  and a backup directory of eleven backups and one other file.
\<close>

definition example_dec :: "string \<Rightarrow> jwt option" where
  "example_dec s =
     (if s = ''good'' then
        Some \<lparr>j_claims = \<lparr>c_userId = 1, c_username = Some ''ana''\<rparr>, j_iat = 1400,
              j_exp = Some 5000, j_key = ''k''\<rparr>
      else if s = ''forged'' then
        Some \<lparr>j_claims = \<lparr>c_userId = 1, c_username = Some ''ana''\<rparr>, j_iat = 1400,
              j_exp = Some 5000, j_key = ''other''\<rparr>
      else if s = ''refresh'' then
        Some \<lparr>j_claims = \<lparr>c_userId = 1, c_username = Some ''ana''\<rparr>, j_iat = 1400,
              j_exp = Some 606200, j_key = ''rk''\<rparr>
      else if s = ''forever'' then
        Some \<lparr>j_claims = \<lparr>c_userId = 1, c_username = None\<rparr>, j_iat = 0,
              j_exp = None, j_key = ''secret-key-123''\<rparr>
      else None)"

definition example_enc :: "jwt \<Rightarrow> string" where
  "example_enc j =
     (if j_key j = ''rk'' then ''refresh''
      else if j_exp j = None then ''forever'' else ''good'')"

definition example_id_eq :: "string \<Rightarrow> nat \<Rightarrow> bool" where
  "example_id_eq s n = (s = ''7'' \<and> n = 7 \<or> s = ''8'' \<and> n = 8)"

definition example_mdb :: mdb where
  "example_mdb =
     \<lparr>m_users =
        [\<lparr>u_id = 1, u_password = ''h1'', u_initial_balance = SNum 100, u_created_at = 10,
          u_username = ''ana'', u_email = ''a@x.com'', u_last_login = None\<rparr>],
      m_users_seq = 2,
      m_transactions =
        [\<lparr>t_id = 7, t_user_id = 2, t_type = ''income'', t_amount = SNum 50,
          t_comment = SNull, t_date = 100, t_category = SNull\<rparr>,
         \<lparr>t_id = 8, t_user_id = 1, t_type = ''expense'', t_amount = SNum 5,
          t_comment = SNull, t_date = 101, t_category = SNull\<rparr>,
         \<lparr>t_id = 9, t_user_id = 1, t_type = ''income'', t_amount = SNum 6,
          t_comment = SText ''pay'', t_date = 300, t_category = SNull\<rparr>],
      m_transactions_seq = 9,
      m_refresh_tokens =
        [\<lparr>r_id = 1, r_user_id = 1, r_token = ''refresh'', r_expires_at = 606200500,
          r_created_at = 1400\<rparr>],
      m_refresh_tokens_seq = 1,
      m_backups = []\<rparr>"

definition example_sdb :: sdb where
  "example_sdb =
     \<lparr>users = [\<lparr>u_id = 1, u_password = ''h1'', u_initial_balance = SNum 100,
                u_created_at = 10\<rparr>],
      users_seq = 1,
      transactions =
        [\<lparr>t_id = 7, t_user_id = 2, t_type = ''income'', t_amount = SNum 50,
          t_comment = SNull, t_date = 100\<rparr>,
         \<lparr>t_id = 8, t_user_id = 1, t_type = ''expense'', t_amount = SNum 5,
          t_comment = SNull, t_date = 101\<rparr>,
         \<lparr>t_id = 9, t_user_id = 1, t_type = ''income'', t_amount = SNum 6,
          t_comment = SText ''pay'', t_date = 300\<rparr>],
      transactions_seq = 9\<rparr>"

definition example_stamp :: stamp where
  "example_stamp =
     \<lparr>year = 2024, month = 1, day = 2, hour = 3, minute = 4, second = 5, milli = 6\<rparr>"

definition old_stamp :: stamp where
  "old_stamp =
     \<lparr>year = 2010, month = 6, day = 1, hour = 0, minute = 0, second = 0, milli = 0\<rparr>"

definition example_dir :: "string list" where
  "example_dir =
     [''backup-2010-06-01T00-00-00-000Z.db'', ''backup-2011-06-01T00-00-00-000Z.db'',
      ''backup-2012-06-01T00-00-00-000Z.db'', ''backup-2013-06-01T00-00-00-000Z.db'',
      ''backup-2014-06-01T00-00-00-000Z.db'', ''notes.txt'',
      ''backup-2015-06-01T00-00-00-000Z.db'', ''backup-2016-06-01T00-00-00-000Z.db'',
      ''backup-2017-06-01T00-00-00-000Z.db'', ''backup-2018-06-01T00-00-00-000Z.db'',
      ''backup-2019-06-01T00-00-00-000Z.db'', ''backup-2020-06-01T00-00-00-000Z.db'']"

definition empty_sdb :: sdb where
  "empty_sdb = \<lparr>users = [], users_seq = 0, transactions = [], transactions_seq = 0\<rparr>"

definition empty_mdb :: mdb where
  "empty_mdb =
     \<lparr>m_users = [], m_users_seq = 0, m_transactions = [], m_transactions_seq = 0,
      m_refresh_tokens = [], m_refresh_tokens_seq = 0, m_backups = []\<rparr>"

section \<open>The middleware in front of every protected route\<close>

text \<open>
  C1. A request whose Authorization header carries no token (no header, or nothing left
  once "Bearer " is removed), a token whose signature was made with another key than the
  server's, or a token whose expiry is not after the clock, is answered 401 by the
  middleware of part_000 and by that of server.js and part_001; the route then replies
  that 401 and leaves the database as it was, whatever the handler is. When the token
  verifies, the context holds the decoded userId (and username in part_000) and the route
  is the handler run on that context.
\<close>

theorem auth_gate:
  fixes a :: "'r + 'c" and handler :: "'c \<Rightarrow> 'd \<Rightarrow> 'r \<times> 'd"
  shows
  "(bearer_token hdr = None \<or> bearer_token hdr = Some [] \<longrightarrow>
      auth_p0 dec secret now hdr = (Inl (Fail 401 Token_invalido_ou_expirado) :: 'a reply + claims) \<and>
      auth_single dec env now hdr = (Inl (Fail 401 Nao_autenticado) :: 'b reply + nat)) \<and>
   (bearer_token hdr = Some t \<and> dec t = Some j \<and> j_key j \<noteq> secret \<longrightarrow>
      auth_p0 dec secret now hdr = Inl (Fail 401 Token_invalido_ou_expirado)) \<and>
   (bearer_token hdr = Some t \<and> dec t = Some j \<and> j_key j \<noteq> jwt_secret_single env \<longrightarrow>
      auth_single dec env now hdr = Inl (Fail 401 Nao_autenticado)) \<and>
   (bearer_token hdr = Some t \<and> dec t = Some j \<and> j_exp j = Some e \<and> e \<le> now div 1000 \<longrightarrow>
      auth_p0 dec secret now hdr = Inl (Fail 401 Token_invalido_ou_expirado) \<and>
      auth_single dec env now hdr = Inl (Fail 401 Nao_autenticado)) \<and>
   (bearer_token hdr = Some t \<and> t \<noteq> [] \<and> jwt_verify dec t secret now = Inr c \<longrightarrow>
      auth_p0 dec secret now hdr = Inr \<lparr>c_userId = c_userId c, c_username = c_username c\<rparr>) \<and>
   (bearer_token hdr = Some t \<and> t \<noteq> [] \<and>
    jwt_verify dec t (jwt_secret_single env) now = Inr c \<longrightarrow>
      auth_single dec env now hdr = Inr (c_userId c)) \<and>
   (\<forall>r. a = Inl r \<longrightarrow> route a handler db = (r, db)) \<and>
   (\<forall>ctx. a = Inr ctx \<longrightarrow> route a handler db = handler ctx db) \<and>
   bearer_token (Some (''Bearer '' @ t)) = Some t"
proof -
  have c1: "bearer_token hdr = None \<or> bearer_token hdr = Some [] \<longrightarrow>
      auth_p0 dec secret now hdr = (Inl (Fail 401 Token_invalido_ou_expirado) :: 'a reply + claims) \<and>
      auth_single dec env now hdr = (Inl (Fail 401 Nao_autenticado) :: 'b reply + nat)"
    by (auto simp: auth_p0_def auth_single_def)
  have c2: "bearer_token hdr = Some t \<and> dec t = Some j \<and> j_key j \<noteq> secret \<longrightarrow>
      auth_p0 dec secret now hdr = Inl (Fail 401 Token_invalido_ou_expirado)"
    by (simp add: auth_p0_def jwt_verify_def)
  have c3: "bearer_token hdr = Some t \<and> dec t = Some j \<and> j_key j \<noteq> jwt_secret_single env \<longrightarrow>
      auth_single dec env now hdr = Inl (Fail 401 Nao_autenticado)"
    by (simp add: auth_single_def jwt_verify_def)
  have c4: "bearer_token hdr = Some t \<and> dec t = Some j \<and> j_exp j = Some e \<and> e \<le> now div 1000 \<longrightarrow>
      auth_p0 dec secret now hdr = Inl (Fail 401 Token_invalido_ou_expirado) \<and>
      auth_single dec env now hdr = Inl (Fail 401 Nao_autenticado)"
    by (simp add: auth_p0_def auth_single_def jwt_verify_def)
  have c5: "bearer_token hdr = Some t \<and> t \<noteq> [] \<and> jwt_verify dec t secret now = Inr c \<longrightarrow>
      auth_p0 dec secret now hdr = Inr \<lparr>c_userId = c_userId c, c_username = c_username c\<rparr>"
    by (simp add: auth_p0_def)
  have c6: "bearer_token hdr = Some t \<and> t \<noteq> [] \<and>
      jwt_verify dec t (jwt_secret_single env) now = Inr c \<longrightarrow>
      auth_single dec env now hdr = Inr (c_userId c)"
    by (simp add: auth_single_def)
  have c7: "\<forall>r. a = Inl r \<longrightarrow> route a handler db = (r, db)"
    by (simp add: route_def)
  have c8: "\<forall>ctx. a = Inr ctx \<longrightarrow> route a handler db = handler ctx db"
    by (simp add: route_def)
  have c9: "bearer_token (Some (''Bearer '' @ t)) = Some t"
    by (simp add: bearer_token_def)
  show ?thesis
    by (intro conjI c1 c2 c3 c4 c5 c6 c7 c8 c9)
qed

theorem auth_gate_witness:
  "auth_p0 example_dec ''k'' 1000 None = (Inl (Fail 401 Token_invalido_ou_expirado) :: success reply + claims) \<and>
   auth_single example_dec (Some ''k'') 1000 (Some ''Bearer '') = (Inl (Fail 401 Nao_autenticado) :: success reply + nat) \<and>
   auth_p0 example_dec ''k'' 1000 (Some ''Bearer forged'') = (Inl (Fail 401 Token_invalido_ou_expirado) :: success reply + claims) \<and>
   auth_single example_dec None 1000 (Some ''Bearer good'') = (Inl (Fail 401 Nao_autenticado) :: success reply + nat) \<and>
   auth_p0 example_dec ''k'' 5000000 (Some ''Bearer good'') = (Inl (Fail 401 Token_invalido_ou_expirado) :: success reply + claims) \<and>
   auth_p0 example_dec ''k'' 4999999 (Some ''Bearer good'') =
     (Inr \<lparr>c_userId = 1, c_username = Some ''ana''\<rparr> :: success reply + claims) \<and>
   auth_single example_dec (Some ''k'') 4999999 (Some ''Bearer good'') = (Inr 1 :: success reply + nat) \<and>
   route (auth_p0 example_dec ''k'' 1000 (Some ''Bearer forged''))
     (delete_transaction_p0 example_id_eq ''8'') example_mdb =
     (Fail 401 Token_invalido_ou_expirado, example_mdb) \<and>
   route (auth_p0 example_dec ''k'' 4999999 (Some ''Bearer good''))
     (delete_transaction_p0 example_id_eq ''8'') example_mdb =
     delete_transaction_p0 example_id_eq ''8'' \<lparr>c_userId = 1, c_username = Some ''ana''\<rparr>
       example_mdb"
proof -
  let ?good = "\<lparr>j_claims = \<lparr>c_userId = 1, c_username = Some ''ana''\<rparr>, j_iat = 1400,
              j_exp = Some 5000, j_key = ''k''\<rparr>"
  let ?forged = "\<lparr>j_claims = \<lparr>c_userId = 1, c_username = Some ''ana''\<rparr>, j_iat = 1400,
              j_exp = Some 5000, j_key = ''other''\<rparr>"
  have b: "bearer_token (Some ''Bearer '') = Some []"
          "bearer_token (Some ''Bearer forged'') = Some ''forged''"
          "bearer_token (Some ''Bearer good'') = Some ''good''"
    by (simp_all add: bearer_token_def)
  have d: "example_dec ''forged'' = Some ?forged" "example_dec ''good'' = Some ?good"
    by (simp_all add: example_dec_def)
  have v: "jwt_verify example_dec ''good'' ''k'' 4999999 = Inr (j_claims ?good)"
    by (simp add: jwt_verify_def d)
  have 1: "auth_p0 example_dec ''k'' 1000 None = (Inl (Fail 401 Token_invalido_ou_expirado) :: success reply + claims)"
    by (rule auth_gate[THEN conjunct1, rule_format, THEN conjunct1])
       (simp add: bearer_token_def)
  have 2: "auth_single example_dec (Some ''k'') 1000 (Some ''Bearer '') = (Inl (Fail 401 Nao_autenticado) :: success reply + nat)"
    by (rule auth_gate[THEN conjunct1, rule_format, THEN conjunct2]) (simp add: b)
  have 3: "auth_p0 example_dec ''k'' 1000 (Some ''Bearer forged'') = (Inl (Fail 401 Token_invalido_ou_expirado) :: success reply + claims)"
    by (rule auth_gate[where t = "''forged''" and j = ?forged,
          THEN conjunct2, THEN conjunct1, rule_format]) (simp add: b d)
  have 4: "auth_single example_dec None 1000 (Some ''Bearer good'') = (Inl (Fail 401 Nao_autenticado) :: success reply + nat)"
    by (rule auth_gate[where t = "''good''" and j = ?good,
          THEN conjunct2, THEN conjunct2, THEN conjunct1, rule_format])
       (simp add: b d jwt_secret_single_def)
  have 5: "auth_p0 example_dec ''k'' 5000000 (Some ''Bearer good'') = (Inl (Fail 401 Token_invalido_ou_expirado) :: success reply + claims)"
    by (rule auth_gate[where t = "''good''" and j = ?good and e = 5000,
          THEN conjunct2, THEN conjunct2, THEN conjunct2, THEN conjunct1, rule_format,
          THEN conjunct1]) (simp add: b d)
  have 6: "auth_p0 example_dec ''k'' 4999999 (Some ''Bearer good'') =
     (Inr \<lparr>c_userId = c_userId (j_claims ?good), c_username = c_username (j_claims ?good)\<rparr>
        :: success reply + claims)"
    by (rule auth_gate[where t = "''good''",
          THEN conjunct2, THEN conjunct2, THEN conjunct2, THEN conjunct2, THEN conjunct1,
          rule_format]) (simp add: b v)
  have 7: "auth_single example_dec (Some ''k'') 4999999 (Some ''Bearer good'') =
     (Inr (c_userId (j_claims ?good)) :: success reply + nat)"
    by (rule auth_gate[where t = "''good''",
          THEN conjunct2, THEN conjunct2, THEN conjunct2, THEN conjunct2, THEN conjunct2,
          THEN conjunct1, rule_format]) (simp add: b v jwt_secret_single_def)
  have 8: "route (auth_p0 example_dec ''k'' 1000 (Some ''Bearer forged''))
     (delete_transaction_p0 example_id_eq ''8'') example_mdb =
     (Fail 401 Token_invalido_ou_expirado, example_mdb)"
    by (rule auth_gate[THEN conjunct2, THEN conjunct2, THEN conjunct2, THEN conjunct2,
          THEN conjunct2, THEN conjunct2, THEN conjunct1, rule_format]) (rule 3)
  from 6 have w6: "auth_p0 example_dec ''k'' 4999999 (Some ''Bearer good'') =
     (Inr \<lparr>c_userId = 1, c_username = Some ''ana''\<rparr> :: success reply + claims)"
    by simp
  from 7 have w7: "auth_single example_dec (Some ''k'') 4999999 (Some ''Bearer good'') =
     (Inr 1 :: success reply + nat)"
    by simp
  have 9: "route (auth_p0 example_dec ''k'' 4999999 (Some ''Bearer good''))
     (delete_transaction_p0 example_id_eq ''8'') example_mdb =
     delete_transaction_p0 example_id_eq ''8'' \<lparr>c_userId = 1, c_username = Some ''ana''\<rparr>
       example_mdb"
    by (rule auth_gate[THEN conjunct2, THEN conjunct2, THEN conjunct2, THEN conjunct2,
          THEN conjunct2, THEN conjunct2, THEN conjunct2, THEN conjunct1, rule_format])
       (rule w6)
  show ?thesis
    by (intro conjI 1 2 3 4 5 w6 w7 8 9)
qed

section \<open>Deleting a transaction\<close>

lemma delete_where_id_user_other:
  "filter (\<lambda>r. t_user_id r \<noteq> uid) (delete_where_id_user id_eq p uid rows) =
   filter (\<lambda>r. t_user_id r \<noteq> uid) rows"
  by (induction rows) (auto simp: delete_where_id_user_def)

lemma delete_where_id_user_none:
  "(\<forall>r \<in> set rows. \<not> (id_eq p (t_id r) \<and> t_user_id r = uid)) \<Longrightarrow>
   delete_where_id_user id_eq p uid rows = rows"
  by (induction rows) (auto simp: delete_where_id_user_def)

text \<open>
  C3. Deleting a transaction always replies \<^verbatim>\<open>{success: true}\<close> with status 200. The
  rows removed are those whose id is the one asked for and whose owner is the requesting
  user; the rows of every other user stay as they were, in their order, and so do the
  other tables. When no row matches (no such id, or a row owned by somebody else) the
  database is unchanged. This holds for part_000 and for server.js and part_001.
\<close>

theorem delete_transaction_scoped:
  "fst (delete_transaction_p0 id_eq p req db) = Reply 200 Success_true \<and>
   snd (delete_transaction_p0 id_eq p req db) =
     db\<lparr>m_transactions :=
          filter (\<lambda>r. \<not> (id_eq p (t_id r) \<and> t_user_id r = c_userId req))
            (m_transactions db)\<rparr> \<and>
   filter (\<lambda>r. t_user_id r \<noteq> c_userId req)
       (m_transactions (snd (delete_transaction_p0 id_eq p req db))) =
     filter (\<lambda>r. t_user_id r \<noteq> c_userId req) (m_transactions db) \<and>
   ((\<forall>r \<in> set (m_transactions db). \<not> (id_eq p (t_id r) \<and> t_user_id r = c_userId req)) \<longrightarrow>
      snd (delete_transaction_p0 id_eq p req db) = db) \<and>
   fst (delete_transaction_single id_eq p uid sd) = Reply 200 Success_true \<and>
   snd (delete_transaction_single id_eq p uid sd) =
     sd\<lparr>transactions :=
          filter (\<lambda>r. \<not> (id_eq p (t_id r) \<and> t_user_id r = uid)) (transactions sd)\<rparr> \<and>
   filter (\<lambda>r. t_user_id r \<noteq> uid)
       (transactions (snd (delete_transaction_single id_eq p uid sd))) =
     filter (\<lambda>r. t_user_id r \<noteq> uid) (transactions sd) \<and>
   ((\<forall>r \<in> set (transactions sd). \<not> (id_eq p (t_id r) \<and> t_user_id r = uid)) \<longrightarrow>
      snd (delete_transaction_single id_eq p uid sd) = sd)"
proof -
  let ?rows = "m_transactions db" and ?u = "c_userId req"
  have m1: "filter (\<lambda>r. t_user_id r \<noteq> ?u) (delete_where_id_user id_eq p ?u ?rows) =
     filter (\<lambda>r. t_user_id r \<noteq> ?u) ?rows"
    by (rule delete_where_id_user_other)
  have m2: "(\<forall>r \<in> set ?rows. \<not> (id_eq p (t_id r) \<and> t_user_id r = ?u)) \<longrightarrow>
     delete_where_id_user id_eq p ?u ?rows = ?rows"
    using delete_where_id_user_none[of ?rows id_eq p ?u] by blast
  have multi:
    "fst (delete_transaction_p0 id_eq p req db) = Reply 200 Success_true \<and>
     snd (delete_transaction_p0 id_eq p req db) =
       db\<lparr>m_transactions :=
            filter (\<lambda>r. \<not> (id_eq p (t_id r) \<and> t_user_id r = ?u)) ?rows\<rparr> \<and>
     filter (\<lambda>r. t_user_id r \<noteq> ?u)
         (m_transactions (snd (delete_transaction_p0 id_eq p req db))) =
       filter (\<lambda>r. t_user_id r \<noteq> ?u) ?rows \<and>
     ((\<forall>r \<in> set ?rows. \<not> (id_eq p (t_id r) \<and> t_user_id r = ?u)) \<longrightarrow>
        snd (delete_transaction_p0 id_eq p req db) = db)"
    using m1 m2 by (simp add: delete_transaction_p0_def delete_where_id_user_def)
  let ?srows = "transactions sd"
  have s1: "filter (\<lambda>r. t_user_id r \<noteq> uid) (delete_where_id_user id_eq p uid ?srows) =
     filter (\<lambda>r. t_user_id r \<noteq> uid) ?srows"
    by (rule delete_where_id_user_other)
  have s2: "(\<forall>r \<in> set ?srows. \<not> (id_eq p (t_id r) \<and> t_user_id r = uid)) \<longrightarrow>
     delete_where_id_user id_eq p uid ?srows = ?srows"
    using delete_where_id_user_none[of ?srows id_eq p uid] by blast
  have single:
    "fst (delete_transaction_single id_eq p uid sd) = Reply 200 Success_true \<and>
     snd (delete_transaction_single id_eq p uid sd) =
       sd\<lparr>transactions :=
            filter (\<lambda>r. \<not> (id_eq p (t_id r) \<and> t_user_id r = uid)) ?srows\<rparr> \<and>
     filter (\<lambda>r. t_user_id r \<noteq> uid)
         (transactions (snd (delete_transaction_single id_eq p uid sd))) =
       filter (\<lambda>r. t_user_id r \<noteq> uid) ?srows \<and>
     ((\<forall>r \<in> set ?srows. \<not> (id_eq p (t_id r) \<and> t_user_id r = uid)) \<longrightarrow>
        snd (delete_transaction_single id_eq p uid sd) = sd)"
    using s1 s2 by (simp add: delete_transaction_single_def delete_where_id_user_def)
  from multi single show ?thesis by blast
qed

text \<open>
  User 1 asks for transaction 7, which user 2 owns, and for transaction 5, which does not
  exist: nothing changes. User 1 asks for its own transaction 8: that row alone goes.
\<close>

theorem delete_transaction_scoped_witness:
  "delete_transaction_p0 example_id_eq ''7'' \<lparr>c_userId = 1, c_username = Some ''ana''\<rparr>
       example_mdb = (Reply 200 Success_true, example_mdb) \<and>
   delete_transaction_single example_id_eq ''5'' 1 example_sdb =
     (Reply 200 Success_true, example_sdb) \<and>
   map t_id (transactions (snd (delete_transaction_single example_id_eq ''8'' 1 example_sdb))) =
     [7, 9]"
proof -
  let ?req = "\<lparr>c_userId = 1, c_username = Some ''ana''\<rparr>"
  have a: "delete_transaction_p0 example_id_eq ''7'' ?req example_mdb =
      (Reply 200 Success_true, example_mdb)"
    using delete_transaction_scoped[of example_id_eq "''7''" ?req example_mdb]
    by (simp add: prod_eq_iff example_mdb_def example_id_eq_def)
  have b: "delete_transaction_single example_id_eq ''5'' 1 example_sdb =
      (Reply 200 Success_true, example_sdb)"
    using delete_transaction_scoped[of example_id_eq "''5''" _ _ 1 example_sdb]
    by (simp add: prod_eq_iff example_sdb_def example_id_eq_def)
  have c: "map t_id (transactions (snd (delete_transaction_single example_id_eq ''8'' 1
      example_sdb))) = [7, 9]"
    using delete_transaction_scoped[of example_id_eq "''8''" _ _ 1 example_sdb]
    by (simp add: example_sdb_def example_id_eq_def)
  from a b c show ?thesis by blast
qed

section \<open>Listing transactions\<close>







section \<open>Registration\<close>

lemma sqljs_bind_or_zero: "\<exists>v. sqljs_bind (js_or ib (Num 0)) = Some v"
  by (cases ib) (simp_all add: js_or_def)

text \<open>
  C4, as the code has it. In part_000 a registration whose password is shorter than 6
  characters is answered 400 and leaves the database as it was; the message is the
  password's when username, email and password are all given. In part_001 a password
  shorter than 4 characters is answered 400 "Senha deve ter pelo menos 4 caracteres" and
  leaves the database as it was. server.js checks no length: it hashes any password
  string, writes the user's row and replies 201.
\<close>

theorem register_short_password_rejected:
  "(length pw < 6 \<longrightarrow>
      (fst (register_p0 enc hash s1 s2 now d un em (Some pw) ib db) = Fail 400 Preencha_todos_os_campos \<or>
       fst (register_p0 enc hash s1 s2 now d un em (Some pw) ib db) = Fail 400 Senha_min_6) \<and>
      snd (register_p0 enc hash s1 s2 now d un em (Some pw) ib db) = db) \<and>
   (length pw < 6 \<and> \<not> missing un \<and> \<not> missing em \<and> pw \<noteq> [] \<longrightarrow>
      fst (register_p0 enc hash s1 s2 now d un em (Some pw) ib db) = Fail 400 Senha_min_6) \<and>
   (length pw < 4 \<longrightarrow>
      register_p1 undef_null enc hash env now (Some pw) ib sd = (Fail 400 Senha_min_4, sd)) \<and>
   (\<exists>v. sqljs_bind (js_or ib (Num 0)) = Some v \<and>
      register_sv enc hash env now (Some pw) ib sd =
        (Reply 201
           \<lparr>s_token = jwt_sign enc
                \<lparr>c_userId = next_rowid (users_seq sd) (map u_id (users sd)), c_username = None\<rparr>
                (jwt_secret_single env) None now,
            s_userId = next_rowid (users_seq sd) (map u_id (users sd))\<rparr>,
         sd\<lparr>users := users sd @
               [\<lparr>u_id = next_rowid (users_seq sd) (map u_id (users sd)),
                 u_password = hash pw, u_initial_balance = v, u_created_at = now div 1000\<rparr>],
            users_seq := next_rowid (users_seq sd) (map u_id (users sd))\<rparr>))"
proof -
  have a: "length pw < 6 \<longrightarrow>
      (fst (register_p0 enc hash s1 s2 now d un em (Some pw) ib db) = Fail 400 Preencha_todos_os_campos \<or>
       fst (register_p0 enc hash s1 s2 now d un em (Some pw) ib db) = Fail 400 Senha_min_6) \<and>
      snd (register_p0 enc hash s1 s2 now d un em (Some pw) ib db) = db"
    by (simp add: register_p0_def split: option.splits)
  have b: "length pw < 6 \<and> \<not> missing un \<and> \<not> missing em \<and> pw \<noteq> [] \<longrightarrow>
      fst (register_p0 enc hash s1 s2 now d un em (Some pw) ib db) = Fail 400 Senha_min_6"
    by (simp add: register_p0_def missing_def split: option.splits)
  have c: "length pw < 4 \<longrightarrow>
      register_p1 undef_null enc hash env now (Some pw) ib sd = (Fail 400 Senha_min_4, sd)"
    by (simp add: register_p1_def)
  obtain v where v: "sqljs_bind (js_or ib (Num 0)) = Some v"
    using sqljs_bind_or_zero by blast
  have e: "\<exists>v. sqljs_bind (js_or ib (Num 0)) = Some v \<and>
      register_sv enc hash env now (Some pw) ib sd =
        (Reply 201
           \<lparr>s_token = jwt_sign enc
                \<lparr>c_userId = next_rowid (users_seq sd) (map u_id (users sd)), c_username = None\<rparr>
                (jwt_secret_single env) None now,
            s_userId = next_rowid (users_seq sd) (map u_id (users sd))\<rparr>,
         sd\<lparr>users := users sd @
               [\<lparr>u_id = next_rowid (users_seq sd) (map u_id (users sd)),
                 u_password = hash pw, u_initial_balance = v, u_created_at = now div 1000\<rparr>],
            users_seq := next_rowid (users_seq sd) (map u_id (users sd))\<rparr>)"
    using v by (simp add: register_sv_def Let_def)
  show ?thesis
    by (intro conjI a b c e)
qed

text \<open>
  The claim as stated gives server.js, the single-user server, a minimum of 4 characters:
  it registers the password "abc" on an empty database, and the row is written.
\<close>

theorem register_sv_short_password_counterexample:
  "length ''abc'' < (4::nat) \<and>
   register_sv (\<lambda>j. ''t'') (\<lambda>p. ''h'') None 0 (Some ''abc'') Undefined empty_sdb =
     (Reply 201 \<lparr>s_token = ''t'', s_userId = 1\<rparr>,
      \<lparr>users = [\<lparr>u_id = 1, u_password = ''h'', u_initial_balance = SNum 0, u_created_at = 0\<rparr>],
       users_seq = 1, transactions = [], transactions_seq = 0\<rparr>)"
  by (simp add: register_sv_def empty_sdb_def js_or_def next_rowid_def jwt_sign_def)

theorem register_short_password_rejected_witness:
  "register_p0 (\<lambda>j. ''t'') (\<lambda>p. ''h'') ''k'' ''rk'' 0
       \<lparr>year = 2024, month = 1, day = 2, hour = 3, minute = 4, second = 5, milli = 6\<rparr>
       (Some ''ana'') (Some ''a@x.com'') (Some ''abcde'') (Num 100) empty_mdb =
     (Fail 400 Senha_min_6, empty_mdb) \<and>
   register_p1 False (\<lambda>j. ''t'') (\<lambda>p. ''h'') None 0 (Some ''abc'') (Num 100) empty_sdb =
     (Fail 400 Senha_min_4, empty_sdb)"
proof -
  let ?d = "\<lparr>year = 2024, month = 1, day = 2, hour = 3, minute = 4, second = 5, milli = 6\<rparr>"
  have a: "register_p0 (\<lambda>j. ''t'') (\<lambda>p. ''h'') ''k'' ''rk'' 0 ?d
       (Some ''ana'') (Some ''a@x.com'') (Some ''abcde'') (Num 100) empty_mdb =
     (Fail 400 Senha_min_6, empty_mdb)"
    using register_short_password_rejected[of "''abcde''" "\<lambda>j. ''t''" "\<lambda>p. ''h''" "''k''" "''rk''" 0 ?d
        "Some ''ana''" "Some ''a@x.com''" "Num 100" empty_mdb]
    by (simp add: prod_eq_iff missing_def)
  have b: "register_p1 False (\<lambda>j. ''t'') (\<lambda>p. ''h'') None 0 (Some ''abc'') (Num 100) empty_sdb =
     (Fail 400 Senha_min_4, empty_sdb)"
    using register_short_password_rejected[where pw = "''abc''" and undef_null = False
        and enc = "\<lambda>j. ''t''" and hash = "\<lambda>p. ''h''" and env = None and now = 0
        and ib = "Num 100" and sd = empty_sdb]
    by simp
  from a b show ?thesis by blast
qed

section \<open>Login\<close>






section \<open>Refreshing a session (part_000)\<close>

text \<open>
  C5. A refresh request that carries a token looks the token up by equality of strings in
  \<^verbatim>\<open>refresh_tokens\<close>, compares the row's \<^verbatim>\<open>expires_at\<close> with the clock, and verifies the
  token with \<^verbatim>\<open>jwt.verify\<close> under the refresh secret (the signature, and with it the
  expiry the token carries). A token that is not stored, a stored expiry before the clock
  and a failed verification, of which a signature made with another key is one, are each
  answered 401. When the three pass the reply is 200 with a new access token for the same
  user, signed with the access secret and expiring 3600 seconds after the clock. In every
  case the database, and so the token's row, is as it was.
\<close>

theorem refresh_checks:
  "rt \<noteq> [] \<Longrightarrow>
   (filter (\<lambda>r. r_token r = rt) (m_refresh_tokens db) = [] \<longrightarrow>
      refresh_p0 enc dec s1 s2 now (Some rt) db = (Fail 401 Refresh_token_invalido, db)) \<and>
   (filter (\<lambda>r. r_token r = rt) (m_refresh_tokens db) = row # rest \<and> r_expires_at row < now \<longrightarrow>
      refresh_p0 enc dec s1 s2 now (Some rt) db = (Fail 401 Refresh_token_expirado, db)) \<and>
   (filter (\<lambda>r. r_token r = rt) (m_refresh_tokens db) = row # rest \<and> now \<le> r_expires_at row \<and>
    jwt_verify dec rt s2 now = Inl err \<longrightarrow>
      refresh_p0 enc dec s1 s2 now (Some rt) db = (Fail 401 Refresh_token_invalido, db)) \<and>
   (dec rt = Some j \<and> j_key j \<noteq> s2 \<longrightarrow> jwt_verify dec rt s2 now = Inl JsonWebTokenError) \<and>
   (dec rt = Some j \<and> j_key j = s2 \<and> (\<forall>e. j_exp j = Some e \<longrightarrow> now div 1000 < e) \<longrightarrow>
      jwt_verify dec rt s2 now = Inr (j_claims j)) \<and>
   (filter (\<lambda>r. r_token r = rt) (m_refresh_tokens db) = row # rest \<and> now \<le> r_expires_at row \<and>
    jwt_verify dec rt s2 now = Inr c \<longrightarrow>
      refresh_p0 enc dec s1 s2 now (Some rt) db =
        (Reply 200
           (enc \<lparr>j_claims = \<lparr>c_userId = c_userId c, c_username = c_username c\<rparr>,
                 j_iat = now div 1000, j_exp = Some (now div 1000 + 3600), j_key = s1\<rparr>), db)) \<and>
   snd (refresh_p0 enc dec s1 s2 now (Some rt) db) = db"
  by (auto simp: refresh_p0_def jwt_sign_def jwt_verify_def split: list.splits sum.splits
      option.splits)


text \<open>
  The stored token of the example database at a time before both of its expiries and one
  second after them, a string that is not stored, another refresh secret, and a time
  between the expiry the token carries and the stored one.
\<close>

theorem refresh_checks_witness:
  "refresh_p0 (\<lambda>j. ''new'') example_dec ''k'' ''rk'' 2000000 (Some ''refresh'') example_mdb =
     (Reply 200 ''new'', example_mdb) \<and>
   refresh_p0 (\<lambda>j. ''new'') example_dec ''k'' ''rk'' 606201500 (Some ''refresh'') example_mdb =
     (Fail 401 Refresh_token_expirado, example_mdb) \<and>
   refresh_p0 (\<lambda>j. ''new'') example_dec ''k'' ''rk'' 2000000 (Some ''good'') example_mdb =
     (Fail 401 Refresh_token_invalido, example_mdb) \<and>
   refresh_p0 (\<lambda>j. ''new'') example_dec ''k'' ''other'' 2000000 (Some ''refresh'') example_mdb =
     (Fail 401 Refresh_token_invalido, example_mdb) \<and>
   refresh_p0 (\<lambda>j. ''new'') example_dec ''k'' ''rk'' 606200200 (Some ''refresh'') example_mdb =
     (Fail 401 Refresh_token_invalido, example_mdb)"
proof -
  let ?enc = "\<lambda>j::jwt. ''new''"
  let ?row = "\<lparr>r_id = 1, r_user_id = 1, r_token = ''refresh'', r_expires_at = 606200500,
          r_created_at = 1400\<rparr>"
  let ?c = "\<lparr>c_userId = 1, c_username = Some ''ana''\<rparr>"
  have f: "filter (\<lambda>r. r_token r = ''refresh'') (m_refresh_tokens example_mdb) = [?row]"
          "filter (\<lambda>r. r_token r = ''good'') (m_refresh_tokens example_mdb) = []"
    by (simp_all add: example_mdb_def)
  have v: "jwt_verify example_dec ''refresh'' ''rk'' 2000000 = Inr ?c"
          "jwt_verify example_dec ''refresh'' ''other'' 2000000 = Inl JsonWebTokenError"
    by (simp_all add: jwt_verify_def example_dec_def)
  have a: "refresh_p0 ?enc example_dec ''k'' ''rk'' 2000000 (Some ''refresh'') example_mdb =
     (Reply 200 ''new'', example_mdb)"
    using refresh_checks[where rt = "''refresh''" and db = example_mdb and enc = ?enc
        and dec = example_dec and ?s1.0 = "''k''" and ?s2.0 = "''rk''" and now = 2000000
        and row = ?row and rest = "[]" and c = ?c] f v
    by simp
  have b: "refresh_p0 ?enc example_dec ''k'' ''rk'' 606201500 (Some ''refresh'') example_mdb =
     (Fail 401 Refresh_token_expirado, example_mdb)"
    using refresh_checks[where rt = "''refresh''" and db = example_mdb and enc = ?enc
        and dec = example_dec and ?s1.0 = "''k''" and ?s2.0 = "''rk''" and now = 606201500
        and row = ?row and rest = "[]"] f
    by simp
  have c: "refresh_p0 ?enc example_dec ''k'' ''rk'' 2000000 (Some ''good'') example_mdb =
     (Fail 401 Refresh_token_invalido, example_mdb)"
    using refresh_checks[where rt = "''good''" and db = example_mdb and enc = ?enc
        and dec = example_dec and ?s1.0 = "''k''" and ?s2.0 = "''rk''" and now = 2000000] f
    by simp
  have d: "refresh_p0 ?enc example_dec ''k'' ''other'' 2000000 (Some ''refresh'') example_mdb =
     (Fail 401 Refresh_token_invalido, example_mdb)"
    using refresh_checks[where rt = "''refresh''" and db = example_mdb and enc = ?enc
        and dec = example_dec and ?s1.0 = "''k''" and ?s2.0 = "''other''" and now = 2000000
        and row = ?row and rest = "[]" and err = JsonWebTokenError] f v
    by simp
  have v': "jwt_verify example_dec ''refresh'' ''rk'' 606200200 = Inl TokenExpiredError"
    by (simp add: jwt_verify_def example_dec_def)
  have e: "refresh_p0 ?enc example_dec ''k'' ''rk'' 606200200 (Some ''refresh'') example_mdb =
     (Fail 401 Refresh_token_invalido, example_mdb)"
    using refresh_checks[where rt = "''refresh''" and db = example_mdb and enc = ?enc
        and dec = example_dec and ?s1.0 = "''k''" and ?s2.0 = "''rk''" and now = 606200200
        and row = ?row and rest = "[]" and err = TokenExpiredError] f v'
    by simp
  from a b c d e show ?thesis by blast
qed

section \<open>Creating a transaction\<close>















section \<open>Updating the initial balance\<close>






section \<open>The lifetime of access tokens\<close>

lemma register_p0_token:
  "register_p0 enc hash s1 s2 now d un em pw ib db = (Reply 201 ses, db') \<Longrightarrow>
   s_token ses = enc \<lparr>j_claims = \<lparr>c_userId = s_userId ses, c_username = Some (s_username ses)\<rparr>,
                      j_iat = now div 1000, j_exp = Some (now div 1000 + 3600), j_key = s1\<rparr>"
  by (auto simp: register_p0_def Let_def jwt_sign_def split: option.splits if_splits)

lemma login_p0_token:
  "login_p0 enc compare s1 s2 now un pw db = (Reply 200 ses, db') \<Longrightarrow>
   s_token ses = enc \<lparr>j_claims = \<lparr>c_userId = s_userId ses, c_username = Some (s_username ses)\<rparr>,
                      j_iat = now div 1000, j_exp = Some (now div 1000 + 3600), j_key = s1\<rparr>"
  by (auto simp: login_p0_def Let_def jwt_sign_def split: option.splits if_splits list.splits)

lemma register_sv_token:
  "register_sv enc hash env now pw ib sd = (Reply 201 ses, sd') \<Longrightarrow>
   s_token ses = enc \<lparr>j_claims = \<lparr>c_userId = s_userId ses, c_username = None\<rparr>,
                      j_iat = now div 1000, j_exp = None, j_key = jwt_secret_single env\<rparr>"
  by (auto simp: register_sv_def Let_def jwt_sign_def split: option.splits if_splits)

lemma register_p1_token:
  "register_p1 undef_null enc hash env now pw ib sd = (Reply 201 ses, sd') \<Longrightarrow>
   s_token ses = enc \<lparr>j_claims = \<lparr>c_userId = s_userId ses, c_username = None\<rparr>,
                      j_iat = now div 1000, j_exp = None, j_key = jwt_secret_single env\<rparr>"
  by (auto simp: register_p1_def Let_def jwt_sign_def split: option.splits if_splits)

lemma login_single_token:
  "login_single enc compare env now pw sd = (Reply 200 ses, sd') \<Longrightarrow>
   s_token ses = enc \<lparr>j_claims = \<lparr>c_userId = s_userId ses, c_username = None\<rparr>,
                      j_iat = now div 1000, j_exp = None, j_key = jwt_secret_single env\<rparr>"
  by (auto simp: login_single_def Let_def jwt_sign_def split: option.splits if_splits list.splits)

lemma auth_p0_expired:
  "dec t = Some j \<Longrightarrow> j_exp j = Some e \<Longrightarrow> e \<le> later div 1000 \<Longrightarrow>
   auth_p0 dec s1 later (Some (''Bearer '' @ t)) = Inl (Fail 401 Token_invalido_ou_expirado)"
  by (simp add: auth_p0_def bearer_token_def jwt_verify_def)

lemma auth_p0_fresh:
  "dec t = Some j \<Longrightarrow> t \<noteq> [] \<Longrightarrow> j_key j = s1 \<Longrightarrow> j_exp j = Some e \<Longrightarrow> later div 1000 < e \<Longrightarrow>
   auth_p0 dec s1 later (Some (''Bearer '' @ t)) =
     Inr \<lparr>c_userId = c_userId (j_claims j), c_username = c_username (j_claims j)\<rparr>"
  by (simp add: auth_p0_def bearer_token_def jwt_verify_def)

lemma auth_single_forever:
  "dec t = Some j \<Longrightarrow> t \<noteq> [] \<Longrightarrow> j_key j = jwt_secret_single env \<Longrightarrow> j_exp j = None \<Longrightarrow>
   auth_single dec env later (Some (''Bearer '' @ t)) = Inr (c_userId (j_claims j))"
  by (simp add: auth_single_def bearer_token_def jwt_verify_def)


text \<open>
  C9, as the code has it. The access token that register and login of part_000 reply is
  signed with the access secret and carries an expiry 3600 seconds after its issue. The
  middleware of part_000 answers 401 to a token once the clock has reached its expiry, and
  before that accepts a token signed with its secret. The tokens that register and login of
  server.js and part_001 reply carry no expiry, and their middleware accepts such a token
  at any time.
\<close>

theorem access_token_lifetime:
  "(register_p0 enc hash s1 s2 now d un em pw ib db = (Reply 201 ses, db') \<or>
    login_p0 enc compare s1 s2 now un pw db = (Reply 200 ses, db') \<longrightarrow>
      s_token ses =
        enc \<lparr>j_claims = \<lparr>c_userId = s_userId ses, c_username = Some (s_username ses)\<rparr>,
             j_iat = now div 1000, j_exp = Some (now div 1000 + 3600), j_key = s1\<rparr>) \<and>
   (dec t = Some j \<and> j_exp j = Some e \<and> e \<le> later div 1000 \<longrightarrow>
      auth_p0 dec s1 later (Some (''Bearer '' @ t)) =
        (Inl (Fail 401 Token_invalido_ou_expirado) :: 'a reply + claims)) \<and>
   (dec t = Some j \<and> t \<noteq> [] \<and> j_key j = s1 \<and> j_exp j = Some e \<and> later div 1000 < e \<longrightarrow>
      auth_p0 dec s1 later (Some (''Bearer '' @ t)) =
        (Inr \<lparr>c_userId = c_userId (j_claims j), c_username = c_username (j_claims j)\<rparr>
           :: 'a reply + claims)) \<and>
   (register_sv enc hash env now pw ib sd = (Reply 201 sses, sd') \<or>
    register_p1 undef_null enc hash env now pw ib sd = (Reply 201 sses, sd') \<or>
    login_single enc compare env now pw sd = (Reply 200 sses, sd') \<longrightarrow>
      s_token sses =
        enc \<lparr>j_claims = \<lparr>c_userId = s_userId sses, c_username = None\<rparr>,
             j_iat = now div 1000, j_exp = None, j_key = jwt_secret_single env\<rparr>) \<and>
   (dec t = Some j \<and> t \<noteq> [] \<and> j_key j = jwt_secret_single env \<and> j_exp j = None \<longrightarrow>
      auth_single dec env later (Some (''Bearer '' @ t)) =
        (Inr (c_userId (j_claims j)) :: 'b reply + nat))"
proof -
  have c1: "register_p0 enc hash s1 s2 now d un em pw ib db = (Reply 201 ses, db') \<or>
    login_p0 enc compare s1 s2 now un pw db = (Reply 200 ses, db') \<longrightarrow>
      s_token ses =
        enc \<lparr>j_claims = \<lparr>c_userId = s_userId ses, c_username = Some (s_username ses)\<rparr>,
             j_iat = now div 1000, j_exp = Some (now div 1000 + 3600), j_key = s1\<rparr>"
    using register_p0_token[of enc hash s1 s2 now d un em pw ib db ses db']
      login_p0_token[of enc compare s1 s2 now un pw db ses db']
    by blast
  have c2: "dec t = Some j \<and> j_exp j = Some e \<and> e \<le> later div 1000 \<longrightarrow>
      auth_p0 dec s1 later (Some (''Bearer '' @ t)) =
        (Inl (Fail 401 Token_invalido_ou_expirado) :: 'a reply + claims)"
    by (intro impI auth_p0_expired[of dec t j e later s1]) blast+
  have c3: "dec t = Some j \<and> t \<noteq> [] \<and> j_key j = s1 \<and> j_exp j = Some e \<and>
      later div 1000 < e \<longrightarrow>
      auth_p0 dec s1 later (Some (''Bearer '' @ t)) =
        (Inr \<lparr>c_userId = c_userId (j_claims j), c_username = c_username (j_claims j)\<rparr>
           :: 'a reply + claims)"
    by (intro impI auth_p0_fresh[of dec t j s1 e later]) blast+
  have c4: "register_sv enc hash env now pw ib sd = (Reply 201 sses, sd') \<or>
    register_p1 undef_null enc hash env now pw ib sd = (Reply 201 sses, sd') \<or>
    login_single enc compare env now pw sd = (Reply 200 sses, sd') \<longrightarrow>
      s_token sses =
        enc \<lparr>j_claims = \<lparr>c_userId = s_userId sses, c_username = None\<rparr>,
             j_iat = now div 1000, j_exp = None, j_key = jwt_secret_single env\<rparr>"
    using register_sv_token[of enc hash env now pw ib sd sses sd']
      register_p1_token[of undef_null enc hash env now pw ib sd sses sd']
      login_single_token[of enc compare env now pw sd sses sd']
    by blast
  have c5: "dec t = Some j \<and> t \<noteq> [] \<and> j_key j = jwt_secret_single env \<and> j_exp j = None \<longrightarrow>
      auth_single dec env later (Some (''Bearer '' @ t)) =
        (Inr (c_userId (j_claims j)) :: 'b reply + nat)"
    by (intro impI auth_single_forever[of dec t j env later]) blast+
  show ?thesis
    by (intro conjI c1 c2 c3 c4 c5)
qed

text \<open>
  A registration on part_000 at second 1400 replies the token that the decoder reads as
  expiring at second 5000: the middleware refuses it at second 5000 and accepts it one
  millisecond before. A registration on server.js replies a token with no expiry, which
  its middleware accepts at second 5000 as well.
\<close>

theorem access_token_lifetime_witness:
  "fst (register_p0 example_enc (\<lambda>p. ''h1'') ''k'' ''rk'' 1400000 example_stamp (Some ''ana'')
        (Some ''a@x.com'') (Some ''secret1'') Undefined empty_mdb) =
     Reply 201 \<lparr>s_token = ''good'', s_userId = 1, s_refreshToken = ''refresh'',
                 s_username = ''ana''\<rparr> \<and>
   example_dec ''good'' =
     Some \<lparr>j_claims = \<lparr>c_userId = 1, c_username = Some ''ana''\<rparr>, j_iat = 1400,
           j_exp = Some (1400 + 3600), j_key = ''k''\<rparr> \<and>
   auth_p0 example_dec ''k'' 5000000 (Some ''Bearer good'') =
     (Inl (Fail 401 Token_invalido_ou_expirado) :: success reply + claims) \<and>
   auth_p0 example_dec ''k'' 4999999 (Some ''Bearer good'') =
     (Inr \<lparr>c_userId = 1, c_username = Some ''ana''\<rparr> :: success reply + claims) \<and>
   s_token (\<lparr>s_token = ''forever'', s_userId = 1\<rparr> :: session) =
     example_enc \<lparr>j_claims = \<lparr>c_userId = 1, c_username = None\<rparr>, j_iat = 0,
                  j_exp = None, j_key = ''secret-key-123''\<rparr> \<and>
   auth_single example_dec None 5000000 (Some ''Bearer forever'') =
     (Inr 1 :: success reply + nat)"
proof -
  let ?ses = "\<lparr>s_token = ''good'', s_userId = 1, s_refreshToken = ''refresh'',
                 s_username = ''ana''\<rparr>"
  let ?j = "\<lparr>j_claims = \<lparr>c_userId = 1, c_username = Some ''ana''\<rparr>, j_iat = 1400,
           j_exp = Some (1400 + 3600), j_key = ''k''\<rparr>"
  let ?reg = "register_p0 example_enc (\<lambda>p. ''h1'') ''k'' ''rk'' 1400000 example_stamp
      (Some ''ana'') (Some ''a@x.com'') (Some ''secret1'') Undefined empty_mdb"
  have reg: "fst ?reg = Reply 201 ?ses"
    by (simp add: register_p0_def empty_mdb_def js_or_def next_rowid_def jwt_sign_def
        example_enc_def Let_def)
  then have pair: "?reg = (Reply 201 ?ses, snd ?reg)"
    by (simp add: prod_eq_iff)
  have tok: "s_token ?ses =
      example_enc \<lparr>j_claims = \<lparr>c_userId = s_userId ?ses, c_username = Some (s_username ?ses)\<rparr>,
             j_iat = 1400000 div 1000, j_exp = Some (1400000 div 1000 + 3600), j_key = ''k''\<rparr>"
    by (rule access_token_lifetime[THEN conjunct1, rule_format]) (rule disjI1, rule pair)
  have dec: "example_dec ''good'' = Some ?j"
    by (simp add: example_dec_def)
  have late: "auth_p0 example_dec ''k'' 5000000 (Some (''Bearer '' @ ''good'')) =
     (Inl (Fail 401 Token_invalido_ou_expirado) :: success reply + claims)"
    by (rule access_token_lifetime[where j = ?j and e = 5000,
          THEN conjunct2, THEN conjunct1, rule_format]) (simp add: dec)
  have early: "auth_p0 example_dec ''k'' 4999999 (Some (''Bearer '' @ ''good'')) =
     (Inr \<lparr>c_userId = c_userId (j_claims ?j), c_username = c_username (j_claims ?j)\<rparr>
        :: success reply + claims)"
    by (rule access_token_lifetime[where j = ?j and e = 5000,
          THEN conjunct2, THEN conjunct2, THEN conjunct1, rule_format]) (simp add: dec)
  let ?sses = "\<lparr>s_token = ''forever'', s_userId = 1\<rparr> :: session"
  let ?f = "\<lparr>j_claims = \<lparr>c_userId = 1, c_username = None\<rparr>, j_iat = 0, j_exp = None,
           j_key = ''secret-key-123''\<rparr>"
  let ?sreg = "register_sv example_enc (\<lambda>p. ''h1'') None 0 (Some ''secret1'') Undefined
      empty_sdb"
  have sreg: "fst ?sreg = Reply 201 ?sses"
    by (simp add: register_sv_def empty_sdb_def js_or_def next_rowid_def jwt_sign_def
        example_enc_def jwt_secret_single_def Let_def)
  then have spair: "?sreg = (Reply 201 ?sses, snd ?sreg)"
    by (simp add: prod_eq_iff)
  have stok: "s_token ?sses =
      example_enc \<lparr>j_claims = \<lparr>c_userId = s_userId ?sses, c_username = None\<rparr>,
             j_iat = 0 div 1000, j_exp = None, j_key = jwt_secret_single None\<rparr>"
    by (rule access_token_lifetime[THEN conjunct2, THEN conjunct2, THEN conjunct2,
          THEN conjunct1, rule_format]) (rule disjI1, rule spair)
  have sdec: "example_dec ''forever'' = Some ?f"
    by (simp add: example_dec_def)
  have always: "auth_single example_dec None 5000000 (Some (''Bearer '' @ ''forever'')) =
     (Inr (c_userId (j_claims ?f)) :: success reply + nat)"
    by (rule access_token_lifetime[where j = ?f,
          THEN conjunct2, THEN conjunct2, THEN conjunct2, THEN conjunct2, rule_format])
       (simp add: sdec jwt_secret_single_def)
  from reg dec late early stok always show ?thesis
    by (simp add: jwt_secret_single_def)
qed

text \<open>
  The claim as stated gives every access token an expiry: the token that server.js
  replies to a registration carries none, and the middleware accepts it more than thirty
  years later.
\<close>

theorem access_token_never_expires_counterexample:
  "fst (register_sv example_enc (\<lambda>p. ''h1'') None 0 (Some ''secret1'') Undefined empty_sdb) =
     Reply 201 \<lparr>s_token = ''forever'', s_userId = 1\<rparr> \<and>
   example_dec ''forever'' =
     Some \<lparr>j_claims = \<lparr>c_userId = 1, c_username = None\<rparr>, j_iat = 0, j_exp = None,
           j_key = jwt_secret_single None\<rparr> \<and>
   auth_single example_dec None 1000000000000 (Some ''Bearer forever'') =
     (Inr 1 :: success reply + nat)"
  by (simp add: register_sv_def empty_sdb_def js_or_def next_rowid_def jwt_sign_def
      example_enc_def example_dec_def jwt_secret_single_def auth_single_def bearer_token_def
      jwt_verify_def)


section \<open>Backup names and the order of time\<close>

lemma lex_append_same_length:
  fixes xs ys :: "'a::linorder list"
  shows "length xs = length ys \<Longrightarrow> xs @ us < ys @ vs \<longleftrightarrow> xs < ys \<or> xs = ys \<and> us < vs"
  by (induction xs ys rule: list_induct2) auto

lemma digit_less: "a < 10 \<Longrightarrow> b < 10 \<Longrightarrow> digit a < digit b \<longleftrightarrow> a < b"
  by (simp add: digit_def less_char_def)

lemma digit_eq: "a < 10 \<Longrightarrow> b < 10 \<Longrightarrow> digit a = digit b \<longleftrightarrow> a = b"
  by (metis digit_less nat_neq_iff less_irrefl)

lemma digit_not_sep: "a < 10 \<Longrightarrow> digit a \<noteq> CHR '':'' \<and> digit a \<noteq> CHR ''.''"
proof -
  assume a: "a < 10"
  have v: "of_char (digit a) = 48 + a"
    using a by (simp add: digit_def)
  have "digit a \<noteq> CHR '':''"
  proof
    assume "digit a = CHR '':''"
    then have "of_char (digit a) = (of_char (CHR '':'') :: nat)" by (rule arg_cong)
    with v have "48 + a = (58::nat)" by simp
    with a show False by arith
  qed
  moreover have "digit a \<noteq> CHR ''.''"
  proof
    assume "digit a = CHR ''.''"
    then have "of_char (digit a) = (of_char (CHR ''.'') :: nat)" by (rule arg_cong)
    with v have "48 + a = (46::nat)" by simp
    then show False by arith
  qed
  ultimately show ?thesis by blast
qed

lemma length_pad [simp]: "length (pad w n) = w"
  by (induction w arbitrary: n) simp_all

lemma less_div_mod:
  fixes n m p :: nat
  assumes "0 < p"
  shows "n < m \<longleftrightarrow> n div p < m div p \<or> n div p = m div p \<and> n mod p < m mod p"
proof -
  have n: "n = p * (n div p) + n mod p" and m: "m = p * (m div p) + m mod p"
    by simp_all
  show ?thesis
  proof (cases "n div p = m div p")
    case True
    then show ?thesis using n m by (metis nat_add_left_cancel_less less_irrefl)
  next
    case False
    show ?thesis
    proof (cases "n div p < m div p")
      case True
      then have "n < m" by (meson div_le_mono leD leI)
      with True show ?thesis by simp
    next
      case F: False
      with False have "m div p < n div p" by simp
      then have "m < n" by (meson div_le_mono leD leI)
      with F False show ?thesis by simp
    qed
  qed
qed

lemma pad_less: "n < 10 ^ w \<Longrightarrow> m < 10 ^ w \<Longrightarrow> pad w n < pad w m \<longleftrightarrow> n < m"
proof (induction w arbitrary: n m)
  case 0
  then show ?case by simp
next
  case (Suc w)
  let ?p = "(10::nat) ^ w"
  have p: "0 < ?p" by simp
  have dn: "n div ?p < 10" and dm: "m div ?p < 10"
    using Suc.prems by (simp_all add: less_mult_imp_div_less mult.commute)
  have rn: "n mod ?p < ?p" and rm: "m mod ?p < ?p"
    by simp_all
  have "pad (Suc w) n < pad (Suc w) m \<longleftrightarrow>
      n div ?p < m div ?p \<or> n div ?p = m div ?p \<and> n mod ?p < m mod ?p"
    using digit_less[OF dn dm] digit_eq[OF dn dm] Suc.IH[OF rn rm] by simp
  then show ?case
    using less_div_mod[OF p, of n m] by simp
qed

lemma pad_eq: "n < 10 ^ w \<Longrightarrow> m < 10 ^ w \<Longrightarrow> pad w n = pad w m \<longleftrightarrow> n = m"
  using pad_less[of n w m] pad_less[of m w n] by (metis less_irrefl nat_neq_iff)

lemma replace_colon_dot_pad: "n < 10 ^ w \<Longrightarrow> replace_colon_dot (pad w n) = pad w n"
proof (induction w arbitrary: n)
  case 0
  then show ?case by (simp add: replace_colon_dot_def)
next
  case (Suc w)
  have d: "n div 10 ^ w < 10"
    using Suc.prems by (simp add: less_mult_imp_div_less mult.commute)
  have "replace_colon_dot (pad w (n mod 10 ^ w)) = pad w (n mod 10 ^ w)"
    by (rule Suc.IH) simp
  then show ?case
    using digit_not_sep[OF d] by (simp add: replace_colon_dot_def)
qed

lemma backup_name_fields:
  assumes "valid_stamp a"
  shows "backup_name a =
    ''backup-'' @ pad 4 (year a) @ ''-'' @ pad 2 (month a) @ ''-'' @ pad 2 (day a) @ ''T'' @
    pad 2 (hour a) @ ''-'' @ pad 2 (minute a) @ ''-'' @ pad 2 (second a) @ ''-'' @
    pad 3 (milli a) @ ''Z.db''"
proof -
  have b: "year a < 10 ^ 4" "month a < 10 ^ 2" "day a < 10 ^ 2" "hour a < 10 ^ 2"
    "minute a < 10 ^ 2" "second a < 10 ^ 2" "milli a < 10 ^ 3"
    using assms by (simp_all add: valid_stamp_def)
  have r: "replace_colon_dot (xs @ ys) = replace_colon_dot xs @ replace_colon_dot ys" for xs ys
    by (simp add: replace_colon_dot_def)
  have l: "replace_colon_dot ''-'' = ''-''" "replace_colon_dot ''T'' = ''T''"
    "replace_colon_dot '':'' = ''-''" "replace_colon_dot ''.'' = ''-''"
    "replace_colon_dot ''Z'' = ''Z''"
    by (simp_all add: replace_colon_dot_def)
  show ?thesis
    unfolding backup_name_def toISOString_def r
    by (simp only: replace_colon_dot_pad[OF b(1)] replace_colon_dot_pad[OF b(2)]
        replace_colon_dot_pad[OF b(3)] replace_colon_dot_pad[OF b(4)]
        replace_colon_dot_pad[OF b(5)] replace_colon_dot_pad[OF b(6)]
        replace_colon_dot_pad[OF b(7)] l) simp
qed

lemma block_less:
  assumes "n < 10 ^ w" "m < 10 ^ w"
  shows "pad w n @ c # us < pad w m @ c # vs \<longleftrightarrow> n < m \<or> n = m \<and> us < vs"
  using assms by (simp add: lex_append_same_length pad_less pad_eq)

lemma backup_name_less:
  assumes "valid_stamp a" "valid_stamp b"
  shows "backup_name a < backup_name b \<longleftrightarrow> earlier a b"
proof -
  have ba: "year a < 10 ^ 4" "month a < 10 ^ 2" "day a < 10 ^ 2" "hour a < 10 ^ 2"
    "minute a < 10 ^ 2" "second a < 10 ^ 2" "milli a < 10 ^ 3"
    using assms(1) by (simp_all add: valid_stamp_def)
  have bb: "year b < 10 ^ 4" "month b < 10 ^ 2" "day b < 10 ^ 2" "hour b < 10 ^ 2"
    "minute b < 10 ^ 2" "second b < 10 ^ 2" "milli b < 10 ^ 3"
    using assms(2) by (simp_all add: valid_stamp_def)
  have last: "pad 3 (milli a) @ ''Z.db'' < pad 3 (milli b) @ ''Z.db'' \<longleftrightarrow> milli a < milli b"
    using block_less[OF ba(7) bb(7), of "CHR ''Z''" "''.db''" "''.db''"] by simp
  show ?thesis
    unfolding backup_name_fields[OF assms(1)] backup_name_fields[OF assms(2)] earlier_def
    using block_less[OF ba(1) bb(1)] block_less[OF ba(2) bb(2)] block_less[OF ba(3) bb(3)]
      block_less[OF ba(4) bb(4)] block_less[OF ba(5) bb(5)] block_less[OF ba(6) bb(6)] last
    by simp
qed


lemma pad_numeral:
  "pad (numeral k) n =
     digit (n div 10 ^ pred_numeral k) # pad (pred_numeral k) (n mod 10 ^ pred_numeral k)"
  by (simp add: numeral_eq_Suc)

lemma pad_One: "pad 1 n = [digit n]"
  using pad.simps(2)[of 0 n] by simp

lemma digit_values:
  "digit 0 = CHR ''0''" "digit (Suc 0) = CHR ''1''" "digit 2 = CHR ''2''" "digit 3 = CHR ''3''"
  "digit 4 = CHR ''4''" "digit 5 = CHR ''5''" "digit 6 = CHR ''6''" "digit 7 = CHR ''7''"
  "digit 8 = CHR ''8''" "digit 9 = CHR ''9''"
  by (simp_all add: digit_def char_of_def bit_Suc_0_iff)

lemma backup_name_example_stamp:
  "backup_name example_stamp = ''backup-2024-01-02T03-04-05-006Z.db''"
  by (simp add: example_stamp_def backup_name_def toISOString_def replace_colon_dot_def
      pad_numeral pad_One digit_values)

lemma backup_name_old_stamp:
  "backup_name old_stamp = ''backup-2010-06-01T00-00-00-000Z.db''"
  by (simp add: old_stamp_def backup_name_def toISOString_def replace_colon_dot_def
      pad_numeral pad_One digit_values)

section \<open>Pruning the backups\<close>

lemma distinct_copyFileSync: "distinct dir \<Longrightarrow> distinct (copyFileSync f dir)"
  by (simp add: copyFileSync_def)

lemma distinct_createBackup: "distinct dir \<Longrightarrow> distinct (createBackup d dir)"
  by (simp add: createBackup_def Let_def distinct_copyFileSync)

lemma desc_sorted:
  fixes B :: "string list"
  assumes "distinct B"
  shows "sorted_wrt (\<lambda>x y. y < x) (rev (sort B))"
proof -
  have "sorted (sort B) \<and> distinct (sort B)"
    using assms by simp
  then have "sorted_wrt (<) (sort B)"
    by (simp only: strict_sorted_iff)
  then show ?thesis
    by (simp only: sorted_wrt_rev)
qed

lemma take_above_drop:
  assumes "sorted_wrt (\<lambda>x y. y < x) S"
  shows "\<forall>k \<in> set (take n S). \<forall>r \<in> set (drop n S). r < k"
proof -
  have "sorted_wrt (\<lambda>x y. y < x) (take n S @ drop n S)"
    using assms by simp
  then show ?thesis
    unfolding sorted_wrt_append by blast
qed

lemma prune_kept:
  fixes dir1 :: "string list"
  assumes d: "distinct dir1"
  defines "S \<equiv> rev (sort (filter is_backup dir1))"
  defines "kept \<equiv> filter is_backup (filter (\<lambda>f. f \<notin> set (drop 10 S)) dir1)"
  shows "set kept = set (take 10 S)" and "length kept = min 10 (length S)"
proof -
  have dS: "distinct S"
    using d by (simp add: S_def)
  have setS: "set S = {f \<in> set dir1. is_backup f}"
    by (simp add: S_def)
  have split: "set (take 10 S) \<union> set (drop 10 S) = set S"
    by (metis append_take_drop_id set_append)
  have disj: "set (take 10 S) \<inter> set (drop 10 S) = {}"
    using dS by (metis append_take_drop_id distinct_append)
  have k: "set kept = set S - set (drop 10 S)"
    using setS by (auto simp: kept_def)
  show sk: "set kept = set (take 10 S)"
    using k split disj by blast
  have dk: "distinct kept"
    using d by (simp add: kept_def)
  have "length kept = card (set kept)"
    using dk by (simp add: distinct_card)
  also have "\<dots> = card (set (take 10 S))"
    by (simp only: sk)
  also have "\<dots> = length (take 10 S)"
    using dS by (simp add: distinct_card)
  finally show "length kept = min 10 (length S)"
    by (simp add: min.commute)
qed

lemma filter_filter_absorb:
  "(\<And>x. x \<in> set xs \<Longrightarrow> P x \<Longrightarrow> Q x) \<Longrightarrow> filter P (filter Q xs) = filter P xs"
  by (induction xs) auto

lemma createBackup_prunes:
  assumes "distinct dir"
  shows "length (filter is_backup (createBackup d dir)) \<le> 10"
    and "10 < length (filter is_backup (copyFileSync (backup_name d) dir)) \<Longrightarrow>
         length (filter is_backup (createBackup d dir)) = 10 \<and>
         set (filter is_backup (createBackup d dir)) =
           set (take 10 (rev (sort (filter is_backup (copyFileSync (backup_name d) dir))))) \<and>
         (\<forall>k \<in> set (filter is_backup (createBackup d dir)).
            \<forall>r \<in> set (filter is_backup (copyFileSync (backup_name d) dir)) -
                  set (filter is_backup (createBackup d dir)). r < k)"
    and "length (filter is_backup (copyFileSync (backup_name d) dir)) \<le> 10 \<Longrightarrow>
         createBackup d dir = copyFileSync (backup_name d) dir"
    and "filter (\<lambda>f. \<not> is_backup f) (createBackup d dir) =
         filter (\<lambda>f. \<not> is_backup f) (copyFileSync (backup_name d) dir)"
proof -
  let ?dir1 = "copyFileSync (backup_name d) dir"
  let ?B = "filter is_backup ?dir1"
  let ?S = "rev (sort ?B)"
  let ?kept = "filter is_backup (filter (\<lambda>f. f \<notin> set (drop 10 ?S)) ?dir1)"
  have d1: "distinct ?dir1"
    using assms by (rule distinct_copyFileSync)
  have lenS: "length ?S = length ?B"
    by simp
  have sk: "set ?kept = set (take 10 ?S)" and lk: "length ?kept = min 10 (length ?S)"
    using prune_kept[OF d1] by simp_all
  have big: "10 < length ?B \<Longrightarrow> filter is_backup (createBackup d dir) = ?kept"
    by (simp add: createBackup_def Let_def)
  have small: "length ?B \<le> 10 \<Longrightarrow> createBackup d dir = ?dir1"
    by (simp add: createBackup_def Let_def)
  show "length (filter is_backup (createBackup d dir)) \<le> 10"
  proof (cases "10 < length ?B")
    case True
    then show ?thesis using big lk by simp
  next
    case False
    then show ?thesis using small by simp
  qed
  show "length ?B \<le> 10 \<Longrightarrow> createBackup d dir = ?dir1"
    by (rule small)
  show "filter (\<lambda>f. \<not> is_backup f) (createBackup d dir) = filter (\<lambda>f. \<not> is_backup f) ?dir1"
  proof -
    have "\<And>f. f \<in> set (drop 10 ?S) \<Longrightarrow> is_backup f"
    proof -
      fix f assume "f \<in> set (drop 10 ?S)"
      then have "f \<in> set ?S" by (rule in_set_dropD)
      then show "is_backup f" by simp
    qed
    then have "filter (\<lambda>f. \<not> is_backup f) (filter (\<lambda>f. f \<notin> set (drop 10 ?S)) ?dir1) =
        filter (\<lambda>f. \<not> is_backup f) ?dir1"
      by (intro filter_filter_absorb) blast
    then show ?thesis
      by (simp add: createBackup_def Let_def)
  qed
  assume gt: "10 < length ?B"
  have sorted: "sorted_wrt (\<lambda>x y. y < x) ?S"
    using d1 by (intro desc_sorted) simp
  have above: "\<forall>k \<in> set (take 10 ?S). \<forall>r \<in> set (drop 10 ?S). r < k"
    using take_above_drop[OF sorted] by blast
  have rest: "set ?B - set (take 10 ?S) \<subseteq> set (drop 10 ?S)"
  proof -
    have "set ?S = set (take 10 ?S) \<union> set (drop 10 ?S)"
      by (metis append_take_drop_id set_append)
    moreover have "set ?S = set ?B" by simp
    ultimately show ?thesis by blast
  qed
  show "length (filter is_backup (createBackup d dir)) = 10 \<and>
         set (filter is_backup (createBackup d dir)) = set (take 10 ?S) \<and>
         (\<forall>k \<in> set (filter is_backup (createBackup d dir)).
            \<forall>r \<in> set ?B - set (filter is_backup (createBackup d dir)). r < k)"
    using gt big sk lk above rest by (simp add: subset_iff)
qed

lemma is_backup_name: "is_backup (backup_name d)"
  by (simp add: is_backup_def backup_name_def)

lemma distinct_run_backups: "distinct dir \<Longrightarrow> distinct (run_backups ds dir)"
  unfolding run_backups_def
  by (induction ds arbitrary: dir) (simp_all add: distinct_createBackup)

lemma run_backups_last:
  "ds \<noteq> [] \<Longrightarrow> run_backups ds dir = createBackup (last ds) (run_backups (butlast ds) dir)"
proof -
  assume "ds \<noteq> []"
  then have "ds = butlast ds @ [last ds]" by simp
  then have "fold createBackup ds dir = fold createBackup (butlast ds @ [last ds]) dir"
    by simp
  then show ?thesis
    by (simp add: run_backups_def)
qed

text \<open>
  C8. The backup directory holds distinct names. After a run of the backup routine at
  most 10 files whose name starts with "backup-" are in it. When more than 10 of them
  exist once the new copy is written, exactly 10 remain, and they are the 10 greatest
  names; for names that carry a time, every backup that remains is later than every
  backup that was deleted. The other files of the directory stay, and with 10 backups or
  fewer nothing is deleted. The same holds after every run of a sequence of runs, since
  each run starts from a directory of distinct names.
\<close>

theorem backup_retention:
  assumes "distinct dir"
  shows
  "length (filter is_backup (createBackup d dir)) \<le> 10 \<and>
   (10 < length (filter is_backup (copyFileSync (backup_name d) dir)) \<longrightarrow>
      length (filter is_backup (createBackup d dir)) = 10 \<and>
      set (filter is_backup (createBackup d dir)) =
        set (take 10 (rev (sort (filter is_backup (copyFileSync (backup_name d) dir))))) \<and>
      (\<forall>a b. valid_stamp a \<and> valid_stamp b \<and>
         backup_name a \<in> set (createBackup d dir) \<and>
         backup_name b \<in> set (copyFileSync (backup_name d) dir) \<and>
         backup_name b \<notin> set (createBackup d dir) \<longrightarrow> earlier b a)) \<and>
   (length (filter is_backup (copyFileSync (backup_name d) dir)) \<le> 10 \<longrightarrow>
      createBackup d dir = copyFileSync (backup_name d) dir) \<and>
   filter (\<lambda>f. \<not> is_backup f) (createBackup d dir) =
     filter (\<lambda>f. \<not> is_backup f) (copyFileSync (backup_name d) dir) \<and>
   (ds \<noteq> [] \<longrightarrow>
      run_backups ds dir = createBackup (last ds) (run_backups (butlast ds) dir) \<and>
      distinct (run_backups (butlast ds) dir) \<and>
      length (filter is_backup (run_backups ds dir)) \<le> 10)"
proof -
  let ?dir1 = "copyFileSync (backup_name d) dir"
  let ?new = "createBackup d dir"
  note r = createBackup_prunes[OF assms, of d]
  have c1: "length (filter is_backup ?new) \<le> 10"
    by (rule r(1))
  have c2: "10 < length (filter is_backup ?dir1) \<longrightarrow>
      length (filter is_backup ?new) = 10 \<and>
      set (filter is_backup ?new) = set (take 10 (rev (sort (filter is_backup ?dir1)))) \<and>
      (\<forall>a b. valid_stamp a \<and> valid_stamp b \<and> backup_name a \<in> set ?new \<and>
         backup_name b \<in> set ?dir1 \<and> backup_name b \<notin> set ?new \<longrightarrow> earlier b a)"
  proof
    assume gt: "10 < length (filter is_backup ?dir1)"
    note k = r(2)[OF gt]
    have "\<forall>a b. valid_stamp a \<and> valid_stamp b \<and> backup_name a \<in> set ?new \<and>
         backup_name b \<in> set ?dir1 \<and> backup_name b \<notin> set ?new \<longrightarrow> earlier b a"
    proof (intro allI impI)
      fix a b
      assume h: "valid_stamp a \<and> valid_stamp b \<and> backup_name a \<in> set ?new \<and>
         backup_name b \<in> set ?dir1 \<and> backup_name b \<notin> set ?new"
      have ka: "backup_name a \<in> set (filter is_backup ?new)"
        using h is_backup_name[of a] by simp
      have rb: "backup_name b \<in> set (filter is_backup ?dir1) - set (filter is_backup ?new)"
        using h is_backup_name[of b] by simp
      have "backup_name b < backup_name a"
        using k ka rb by blast
      then show "earlier b a"
        using h backup_name_less[of b a] by simp
    qed
    with k show "length (filter is_backup ?new) = 10 \<and>
      set (filter is_backup ?new) = set (take 10 (rev (sort (filter is_backup ?dir1)))) \<and>
      (\<forall>a b. valid_stamp a \<and> valid_stamp b \<and> backup_name a \<in> set ?new \<and>
         backup_name b \<in> set ?dir1 \<and> backup_name b \<notin> set ?new \<longrightarrow> earlier b a)"
      by blast
  qed
  have c3: "length (filter is_backup ?dir1) \<le> 10 \<longrightarrow> ?new = ?dir1"
    using r(3) by blast
  have c4: "filter (\<lambda>f. \<not> is_backup f) ?new = filter (\<lambda>f. \<not> is_backup f) ?dir1"
    by (rule r(4))
  have c5: "ds \<noteq> [] \<longrightarrow>
      run_backups ds dir = createBackup (last ds) (run_backups (butlast ds) dir) \<and>
      distinct (run_backups (butlast ds) dir) \<and>
      length (filter is_backup (run_backups ds dir)) \<le> 10"
  proof
    assume ne: "ds \<noteq> []"
    have d: "distinct (run_backups (butlast ds) dir)"
      using assms by (rule distinct_run_backups)
    have l: "run_backups ds dir = createBackup (last ds) (run_backups (butlast ds) dir)"
      using ne by (rule run_backups_last)
    have "length (filter is_backup (createBackup (last ds) (run_backups (butlast ds) dir))) \<le> 10"
      using d by (rule createBackup_prunes(1))
    with d l show "run_backups ds dir = createBackup (last ds) (run_backups (butlast ds) dir) \<and>
      distinct (run_backups (butlast ds) dir) \<and>
      length (filter is_backup (run_backups ds dir)) \<le> 10"
      by simp
  qed
  show ?thesis
    by (intro conjI c1 c2 c3 c4 c5)
qed


text \<open>
  The example directory holds the backups of 2010 to 2020 and a file of notes; a backup
  in 2024 leaves that of 2024 and those of 2012 to 2020, and the notes.
\<close>

theorem backup_retention_witness:
  "createBackup example_stamp example_dir =
     [''backup-2012-06-01T00-00-00-000Z.db'', ''backup-2013-06-01T00-00-00-000Z.db'',
      ''backup-2014-06-01T00-00-00-000Z.db'', ''notes.txt'',
      ''backup-2015-06-01T00-00-00-000Z.db'', ''backup-2016-06-01T00-00-00-000Z.db'',
      ''backup-2017-06-01T00-00-00-000Z.db'', ''backup-2018-06-01T00-00-00-000Z.db'',
      ''backup-2019-06-01T00-00-00-000Z.db'', ''backup-2020-06-01T00-00-00-000Z.db'',
      ''backup-2024-01-02T03-04-05-006Z.db''] \<and>
   length (filter is_backup (createBackup example_stamp example_dir)) = 10 \<and>
   earlier old_stamp example_stamp \<and>
   length (filter is_backup (run_backups [old_stamp, example_stamp] example_dir)) \<le> 10"
proof -
  have dist: "distinct example_dir"
    by (simp add: example_dir_def)
  have copy: "copyFileSync (backup_name example_stamp) example_dir =
      example_dir @ [''backup-2024-01-02T03-04-05-006Z.db'']"
    by (simp add: backup_name_example_stamp copyFileSync_def example_dir_def)
  have sorted: "rev (sort (filter is_backup
        (example_dir @ [''backup-2024-01-02T03-04-05-006Z.db'']))) =
     [''backup-2024-01-02T03-04-05-006Z.db'', ''backup-2020-06-01T00-00-00-000Z.db'',
      ''backup-2019-06-01T00-00-00-000Z.db'', ''backup-2018-06-01T00-00-00-000Z.db'',
      ''backup-2017-06-01T00-00-00-000Z.db'', ''backup-2016-06-01T00-00-00-000Z.db'',
      ''backup-2015-06-01T00-00-00-000Z.db'', ''backup-2014-06-01T00-00-00-000Z.db'',
      ''backup-2013-06-01T00-00-00-000Z.db'', ''backup-2012-06-01T00-00-00-000Z.db'',
      ''backup-2011-06-01T00-00-00-000Z.db'', ''backup-2010-06-01T00-00-00-000Z.db'']"
    by (simp add: example_dir_def is_backup_def)
  have run: "createBackup example_stamp example_dir =
     [''backup-2012-06-01T00-00-00-000Z.db'', ''backup-2013-06-01T00-00-00-000Z.db'',
      ''backup-2014-06-01T00-00-00-000Z.db'', ''notes.txt'',
      ''backup-2015-06-01T00-00-00-000Z.db'', ''backup-2016-06-01T00-00-00-000Z.db'',
      ''backup-2017-06-01T00-00-00-000Z.db'', ''backup-2018-06-01T00-00-00-000Z.db'',
      ''backup-2019-06-01T00-00-00-000Z.db'', ''backup-2020-06-01T00-00-00-000Z.db'',
      ''backup-2024-01-02T03-04-05-006Z.db'']"
    unfolding createBackup_def copy Let_def sorted
    by (simp add: example_dir_def)
  have many: "10 < length (filter is_backup (copyFileSync (backup_name example_stamp)
      example_dir))"
    unfolding copy by (simp add: example_dir_def is_backup_def)
  note th = backup_retention[OF dist, of example_stamp "[old_stamp, example_stamp]"]
  have ten: "length (filter is_backup (createBackup example_stamp example_dir)) = 10"
    using th many by blast
  have valid: "valid_stamp example_stamp" "valid_stamp old_stamp"
    by (simp_all add: valid_stamp_def example_stamp_def old_stamp_def)
  have kept: "backup_name example_stamp \<in> set (createBackup example_stamp example_dir)"
    unfolding run backup_name_example_stamp by simp
  have was: "backup_name old_stamp \<in> set (copyFileSync (backup_name example_stamp) example_dir)"
    unfolding copy backup_name_old_stamp by (simp add: example_dir_def)
  have gone: "backup_name old_stamp \<notin> set (createBackup example_stamp example_dir)"
    unfolding run backup_name_old_stamp by simp
  have order: "earlier old_stamp example_stamp"
    using th many valid kept was gone by blast
  have ne: "[old_stamp, example_stamp] \<noteq> []"
    by simp
  have cycles: "length (filter is_backup (run_backups [old_stamp, example_stamp] example_dir))
      \<le> 10"
    using th ne by blast
  from run ten order cycles show ?thesis by blast
qed

end
